theory Spec2Isabelle
  imports Complex_Main "HOL-Library.Sublist"
begin

section \<open>The handler registration layer of kopf (module \<open>kopf.on\<close>)\<close>

text \<open>
  The module \<open>kopf/on.py\<close> holds the registration entry points
  \<open>startup\<close>, \<open>cleanup\<close>, \<open>login\<close>, \<open>probe\<close>, \<open>resume\<close>, \<open>create\<close>, \<open>update\<close>,
  \<open>delete\<close>, \<open>field\<close>, \<open>event\<close>, \<open>this\<close> and \<open>register\<close>. Each one is modelled as
  a function \<open>on_\<dots>\<close> that takes the canonicalisation of explicit ids, the
  arguments of the Python function in the order of its signature, the decorated
  callback and the state of the process, and returns the callback together with
  the state after the call. \<open>this\<close> and \<open>register\<close> can raise; they return
  either the error with the state at the raise, or the callback with the state
  after the call.
  The module builds on \<open>registries\<close>, \<open>handlers\<close>, \<open>handling\<close>, \<open>dicts\<close>, \<open>filters\<close>
  and \<open>causation\<close>; what it uses of them is modelled from the specification
  and marked so.
\<close>

subsection \<open>Data model\<close>

text \<open>
  A callback is an opaque function reference. The only thing the layer reads
  from it is its declared name; \<open>fn_ref\<close> is the identity of the function object.
\<close>

datatype callback = Callback (fn_name: string) (fn_ref: nat)

text \<open>Modelled from the spec: the enumeration of error modes (\<open>errors_.ErrorsMode\<close>).\<close>

datatype errors_mode = Ignore | Temporary | Permanent

text \<open>\<open>causation.Activity\<close> and \<open>causation.Reason\<close>, with the members used in \<open>on.py\<close>.\<close>

datatype activity_kind = STARTUP | CLEANUP | AUTHENTICATION | PROBE

datatype reason_kind = CREATE | UPDATE | DELETE

text \<open>\<open>resources.Resource(group, version, plural)\<close>: the resource-type key.\<close>

datatype resource = Resource (group: string) (version: string) (plural: string)

text \<open>
  Modelled from the spec: a label or annotation filter maps a key to a match
  rule (a literal value, "must be present", "must be absent", or a predicate).
  The Python value \<open>None\<close> for a rule (the old convention) is \<open>None\<close> here.
  A filter is the list of the items of the Python dict, in iteration order.
\<close>

datatype meta_rule = Literal string | PRESENT | ABSENT | Predicate callback

type_synonym meta_filter = "(string \<times> meta_rule option) list"

text \<open>
  Modelled from the spec: the three descriptor variants of module \<open>handlers\<close>.
  The common fields are inherited, as the entry points pass the same arguments
  to all three constructors. Durations are stored and never computed with.
\<close>

record base_handler =
  fn :: callback
  id' :: string
  errors :: "errors_mode option"
  timeout :: "real option"
  retries :: "int option"
  backoff :: "real option"

record activity_handler = base_handler +
  activity :: activity_kind

record resource_handler = base_handler +
  labels :: "meta_filter option"
  annotations :: "meta_filter option"
  when' :: "callback option"

type_synonym resource_watching_handler = resource_handler

record resource_changing_handler = resource_handler +
  reason :: "reason_kind option"
  field :: "string list option"
  initial :: "bool option"
  deleted :: "bool option"
  requires_finalizer :: "bool option"

text \<open>
  Modelled from the spec: \<open>registries.OperatorRegistry\<close> owns the activity list
  and two indices from resource-type key to an insertion-ordered list.
\<close>

record operator_registry =
  activity_handlers :: "activity_handler list"
  resource_watching_handlers :: "resource \<rightharpoonup> resource_watching_handler list"
  resource_changing_handlers :: "resource \<rightharpoonup> resource_changing_handler list"

definition empty_registry :: operator_registry where
  "empty_registry = \<lparr>activity_handlers = [],
     resource_watching_handlers = Map.empty, resource_changing_handlers = Map.empty\<rparr>"

text \<open>
  The warnings passed to \<open>warnings.warn\<close>, all of category \<open>DeprecationWarning\<close>:
  the two messages of \<open>_warn_deprecated_filters\<close>, and the signal the spec
  attaches to the deprecated \<open>cooldown\<close> argument.
\<close>

datatype warning = LabelNoneDeprecated | AnnotationNoneDeprecated | CooldownDeprecated

datatype error = LookupError | AttributeError

text \<open>
  Modelled from the spec: the ambient execution context of module \<open>handling\<close>.
  \<open>handler_var\<close> and \<open>subregistry_var\<close> are context variables; one that was never
  set is \<open>Unset\<close>, and reading it raises \<open>LookupError\<close>. The value held may be
  \<open>None\<close>: the source tests \<open>parent_handler\<close> for truth before reading its id.
\<close>

datatype 'a contextvar = Unset | Value 'a

fun get :: "'a contextvar \<Rightarrow> error + 'a" where
  "get Unset = Inl LookupError"
| "get (Value v) = Inr v"

text \<open>
  The state of the process. Registries are mutable objects: the registries a
  caller constructs live in a store indexed by reference, the process-wide
  default one in a variable that is \<open>None\<close> until its first use.
  \<open>changing_registries\<close> holds the \<open>ResourceChangingRegistry\<close> objects that
  \<open>this\<close> and \<open>register\<close> append to; each is an object of its own, apart from the
  lists inside an operator registry.
\<close>

record state =
  default_registry :: "operator_registry option"
  operator_registries :: "nat \<Rightarrow> operator_registry"
  changing_registries :: "nat \<Rightarrow> resource_changing_handler list"
  handler_var :: "resource_changing_handler option contextvar"
  subregistry_var :: "nat option contextvar"
  warnings :: "warning list"

definition initial_state :: state where
  "initial_state = \<lparr>default_registry = None,
     operator_registries = (\<lambda>_. empty_registry), changing_registries = (\<lambda>_. []),
     handler_var = Unset, subregistry_var = Unset, warnings = []\<rparr>"

subsection \<open>The registry operations\<close>

datatype registry_ref = DefaultRegistry | RegistryAt nat

text \<open>
  Modelled from the spec: \<open>registries.get_default_registry()\<close> creates the
  default registry lazily on first use and returns the same one afterwards.
\<close>

definition get_default_registry :: "state \<Rightarrow> registry_ref \<times> state" where
  "get_default_registry s = (case default_registry s of
      None \<Rightarrow> (DefaultRegistry, s\<lparr>default_registry := Some empty_registry\<rparr>)
    | Some _ \<Rightarrow> (DefaultRegistry, s))"

fun deref :: "registry_ref \<Rightarrow> state \<Rightarrow> operator_registry" where
  "deref DefaultRegistry s =
     (case default_registry s of None \<Rightarrow> empty_registry | Some r \<Rightarrow> r)"
| "deref (RegistryAt a) s = operator_registries s a"

fun assign :: "registry_ref \<Rightarrow> operator_registry \<Rightarrow> state \<Rightarrow> state" where
  "assign DefaultRegistry r s = s\<lparr>default_registry := Some r\<rparr>"
| "assign (RegistryAt a) r s = s\<lparr>operator_registries := (operator_registries s)(a := r)\<rparr>"

text \<open>
  Modelled from the spec: the lists of a key are created on the first insert
  (\<open>real_registry.resource_changing_handlers[real_resource]\<close> never fails).
\<close>

definition handlers_at :: "('k \<rightharpoonup> 'h list) \<Rightarrow> 'k \<Rightarrow> 'h list" where
  "handlers_at m k = (case m k of None \<Rightarrow> [] | Some hs \<Rightarrow> hs)"

text \<open>
  Modelled from the spec: the three append operations of the registry. Each
  appends to the end of the list it names and touches nothing else.
\<close>

definition activity_handlers_append ::
  "registry_ref \<Rightarrow> activity_handler \<Rightarrow> state \<Rightarrow> state" where
  "activity_handlers_append r h s =
     (let reg = deref r s
      in assign r (reg\<lparr>activity_handlers := activity_handlers reg @ [h]\<rparr>) s)"

definition resource_watching_handlers_append ::
  "registry_ref \<Rightarrow> resource \<Rightarrow> resource_watching_handler \<Rightarrow> state \<Rightarrow> state" where
  "resource_watching_handlers_append r k h s =
     (let reg = deref r s; m = resource_watching_handlers reg
      in assign r (reg\<lparr>resource_watching_handlers := m(k \<mapsto> handlers_at m k @ [h])\<rparr>) s)"

definition resource_changing_handlers_append ::
  "registry_ref \<Rightarrow> resource \<Rightarrow> resource_changing_handler \<Rightarrow> state \<Rightarrow> state" where
  "resource_changing_handlers_append r k h s =
     (let reg = deref r s; m = resource_changing_handlers reg
      in assign r (reg\<lparr>resource_changing_handlers := m(k \<mapsto> handlers_at m k @ [h])\<rparr>) s)"

text \<open>What a reader of the registries sees.\<close>

definition activity_list :: "registry_ref \<Rightarrow> state \<Rightarrow> activity_handler list" where
  "activity_list r s = activity_handlers (deref r s)"

definition watching_list ::
  "registry_ref \<Rightarrow> resource \<Rightarrow> state \<Rightarrow> resource_watching_handler list" where
  "watching_list r k s = handlers_at (resource_watching_handlers (deref r s)) k"

definition changing_list ::
  "registry_ref \<Rightarrow> resource \<Rightarrow> state \<Rightarrow> resource_changing_handler list" where
  "changing_list r k s = handlers_at (resource_changing_handlers (deref r s)) k"

subsection \<open>Identifiers and field paths\<close>

text \<open>Python's \<open>str.split(sep)\<close> for a one-character separator, and \<open>sep.join\<close>.\<close>

fun split :: "char \<Rightarrow> string \<Rightarrow> string list" where
  "split c [] = [[]]"
| "split c (x # xs) =
     (if x = c then [] # split c xs
      else (case split c xs of [] \<Rightarrow> [[x]] | w # ws \<Rightarrow> (x # w) # ws))"

fun join :: "string \<Rightarrow> string list \<Rightarrow> string" where
  "join sep [] = []"
| "join sep [x] = x"
| "join sep (x # y # ys) = x @ sep @ join sep (y # ys)"

text \<open>
  Modelled from the spec: \<open>dicts.FieldSpec\<close> and \<open>dicts.parse_field\<close>. A field
  is accepted as a pre-split sequence or as a single dotted string, which is
  split on the dot.
\<close>

datatype field_spec = FieldStr string | FieldSeq "string list"

fun parse_field :: "field_spec \<Rightarrow> string list" where
  "parse_field (FieldStr s) = split (CHR ''.'') s"
| "parse_field (FieldSeq xs) = xs"

text \<open>
  Modelled from the spec: \<open>registries.generate_id\<close>, the identifier deriver.
  An explicit id is canonicalised and used as the base, otherwise the base is
  the declared name of the callback; a non-empty suffix is appended after a
  slash; a prefix, when supplied, is put in front, followed by a slash. The
  spec names the canonicalisation by example only, so it is the parameter
  \<open>canon\<close>. The deriver never fails.
\<close>

definition generate_id ::
  "(string \<Rightarrow> string) \<Rightarrow> callback \<Rightarrow> string option \<Rightarrow> string option \<Rightarrow> string option \<Rightarrow> string" where
  "generate_id canon f id_kw prefix_kw suffix_kw =
     (let base = (case id_kw of Some i \<Rightarrow> canon i | None \<Rightarrow> fn_name f);
          suffixed = (case suffix_kw of
              Some sfx \<Rightarrow> if sfx \<noteq> [] then base @ ''/'' @ sfx else base
            | None \<Rightarrow> base)
      in (case prefix_kw of Some pfx \<Rightarrow> pfx @ ''/'' @ suffixed | None \<Rightarrow> suffixed))"

subsection \<open>Construction of descriptors\<close>

text \<open>
  Modelled from the spec: the constructors of module \<open>handlers\<close>. \<open>backoff\<close> and
  the deprecated \<open>cooldown\<close> map to one effective value, \<open>backoff\<close> taking
  precedence; supplying \<open>cooldown\<close> emits a non-fatal deprecation signal.
  \<open>cooldown\<close> of a descriptor reads the same effective value.
\<close>

definition effective_backoff :: "real option \<Rightarrow> real option \<Rightarrow> real option" where
  "effective_backoff backoff_kw cooldown_kw =
     (case backoff_kw of Some b \<Rightarrow> Some b | None \<Rightarrow> cooldown_kw)"

definition cooldown_signal :: "real option \<Rightarrow> state \<Rightarrow> state" where
  "cooldown_signal cooldown_kw s =
     (if cooldown_kw \<noteq> None then s\<lparr>warnings := warnings s @ [CooldownDeprecated]\<rparr> else s)"

definition cooldown :: "'a base_handler_scheme \<Rightarrow> real option" where
  "cooldown h = backoff h"

definition ActivityHandler ::
  "callback \<Rightarrow> string \<Rightarrow> errors_mode option \<Rightarrow> real option \<Rightarrow> int option \<Rightarrow> real option
   \<Rightarrow> real option \<Rightarrow> activity_kind \<Rightarrow> state \<Rightarrow> activity_handler \<times> state" where
  "ActivityHandler f i e t r b c a s =
     (\<lparr>fn = f, id' = i, errors = e, timeout = t, retries = r,
       backoff = effective_backoff b c, activity = a\<rparr>,
      cooldown_signal c s)"

definition ResourceWatchingHandler ::
  "callback \<Rightarrow> string \<Rightarrow> errors_mode option \<Rightarrow> real option \<Rightarrow> int option \<Rightarrow> real option
   \<Rightarrow> real option \<Rightarrow> meta_filter option \<Rightarrow> meta_filter option \<Rightarrow> callback option
   \<Rightarrow> state \<Rightarrow> resource_watching_handler \<times> state" where
  "ResourceWatchingHandler f i e t r b c l a w s =
     (\<lparr>fn = f, id' = i, errors = e, timeout = t, retries = r,
       backoff = effective_backoff b c, labels = l, annotations = a, when' = w\<rparr>,
      cooldown_signal c s)"

definition ResourceChangingHandler ::
  "callback \<Rightarrow> string \<Rightarrow> string list option \<Rightarrow> errors_mode option \<Rightarrow> real option
   \<Rightarrow> int option \<Rightarrow> real option \<Rightarrow> real option
   \<Rightarrow> meta_filter option \<Rightarrow> meta_filter option \<Rightarrow> callback option
   \<Rightarrow> bool option \<Rightarrow> bool option \<Rightarrow> bool option \<Rightarrow> reason_kind option
   \<Rightarrow> state \<Rightarrow> resource_changing_handler \<times> state" where
  "ResourceChangingHandler f i fld e t r b c l a w ini del fin rsn s =
     (\<lparr>fn = f, id' = i, errors = e, timeout = t, retries = r,
       backoff = effective_backoff b c, labels = l, annotations = a, when' = w,
       reason = rsn, field = fld, initial = ini, deleted = del,
       requires_finalizer = fin\<rparr>,
      cooldown_signal c s)"

subsection \<open>Deprecated filters\<close>

text \<open>
  \<open>_warn_deprecated_filters\<close>: each loop calls \<open>warnings.warn\<close> for every item
  whose value is \<open>None\<close>. A warning is recorded and the call goes on.
\<close>

fun warn_items :: "warning \<Rightarrow> (string \<times> 'v option) list \<Rightarrow> warning list" where
  "warn_items w [] = []"
| "warn_items w ((key, val) # rest) =
     (if val = None then w # warn_items w rest else warn_items w rest)"

definition warn_deprecated_filters ::
  "meta_filter option \<Rightarrow> meta_filter option \<Rightarrow> state \<Rightarrow> state" where
  "warn_deprecated_filters labels_kw annotations_kw s =
     (let s1 = (case labels_kw of None \<Rightarrow> s
                | Some l \<Rightarrow> s\<lparr>warnings := warnings s @ warn_items LabelNoneDeprecated l\<rparr>)
      in (case annotations_kw of None \<Rightarrow> s1
          | Some a \<Rightarrow> s1\<lparr>warnings := warnings s1 @ warn_items AnnotationNoneDeprecated a\<rparr>))"


subsection \<open>The entry points for activities\<close>

definition on_startup ::
  "(string \<Rightarrow> string) \<Rightarrow> string option \<Rightarrow> errors_mode option \<Rightarrow> real option \<Rightarrow> int option
   \<Rightarrow> real option \<Rightarrow> real option \<Rightarrow> nat option \<Rightarrow> callback \<Rightarrow> state \<Rightarrow> callback \<times> state" where
  "on_startup canon id_kw errors_kw timeout_kw retries_kw backoff_kw cooldown_kw registry_kw f s =
     (let (real_registry, s1) = (case registry_kw of Some r \<Rightarrow> (RegistryAt r, s)
                                  | None \<Rightarrow> get_default_registry s);
          real_id = generate_id canon f id_kw None None;
          (handler, s2) = ActivityHandler f real_id
             errors_kw timeout_kw retries_kw backoff_kw cooldown_kw
             STARTUP s1
      in (f, activity_handlers_append real_registry handler s2))"

definition on_cleanup ::
  "(string \<Rightarrow> string) \<Rightarrow> string option \<Rightarrow> errors_mode option \<Rightarrow> real option \<Rightarrow> int option
   \<Rightarrow> real option \<Rightarrow> real option \<Rightarrow> nat option \<Rightarrow> callback \<Rightarrow> state \<Rightarrow> callback \<times> state" where
  "on_cleanup canon id_kw errors_kw timeout_kw retries_kw backoff_kw cooldown_kw registry_kw f s =
     (let (real_registry, s1) = (case registry_kw of Some r \<Rightarrow> (RegistryAt r, s)
                                  | None \<Rightarrow> get_default_registry s);
          real_id = generate_id canon f id_kw None None;
          (handler, s2) = ActivityHandler f real_id
             errors_kw timeout_kw retries_kw backoff_kw cooldown_kw
             CLEANUP s1
      in (f, activity_handlers_append real_registry handler s2))"

definition on_login ::
  "(string \<Rightarrow> string) \<Rightarrow> string option \<Rightarrow> errors_mode option \<Rightarrow> real option \<Rightarrow> int option
   \<Rightarrow> real option \<Rightarrow> real option \<Rightarrow> nat option \<Rightarrow> callback \<Rightarrow> state \<Rightarrow> callback \<times> state" where
  "on_login canon id_kw errors_kw timeout_kw retries_kw backoff_kw cooldown_kw registry_kw f s =
     (let (real_registry, s1) = (case registry_kw of Some r \<Rightarrow> (RegistryAt r, s)
                                  | None \<Rightarrow> get_default_registry s);
          real_id = generate_id canon f id_kw None None;
          (handler, s2) = ActivityHandler f real_id
             errors_kw timeout_kw retries_kw backoff_kw cooldown_kw
             AUTHENTICATION s1
      in (f, activity_handlers_append real_registry handler s2))"

definition on_probe ::
  "(string \<Rightarrow> string) \<Rightarrow> string option \<Rightarrow> errors_mode option \<Rightarrow> real option \<Rightarrow> int option
   \<Rightarrow> real option \<Rightarrow> real option \<Rightarrow> nat option \<Rightarrow> callback \<Rightarrow> state \<Rightarrow> callback \<times> state" where
  "on_probe canon id_kw errors_kw timeout_kw retries_kw backoff_kw cooldown_kw registry_kw f s =
     (let (real_registry, s1) = (case registry_kw of Some r \<Rightarrow> (RegistryAt r, s)
                                  | None \<Rightarrow> get_default_registry s);
          real_id = generate_id canon f id_kw None None;
          (handler, s2) = ActivityHandler f real_id
             errors_kw timeout_kw retries_kw backoff_kw cooldown_kw
             PROBE s1
      in (f, activity_handlers_append real_registry handler s2))"

subsection \<open>The entry points for resources\<close>

text \<open>Python's \<open>bool(not x)\<close> on an optional boolean: \<open>None\<close> is false.\<close>

fun bool_not :: "bool option \<Rightarrow> bool" where
  "bool_not None = True"
| "bool_not (Some b) = (\<not> b)"

definition on_resume ::
  "(string \<Rightarrow> string) \<Rightarrow> string \<Rightarrow> string \<Rightarrow> string
   \<Rightarrow> string option \<Rightarrow> errors_mode option \<Rightarrow> real option \<Rightarrow> int option
   \<Rightarrow> real option \<Rightarrow> real option \<Rightarrow> nat option \<Rightarrow> bool option
   \<Rightarrow> meta_filter option \<Rightarrow> meta_filter option \<Rightarrow> callback option
   \<Rightarrow> callback \<Rightarrow> state \<Rightarrow> callback \<times> state" where
  "on_resume canon group_kw version_kw plural_kw
       id_kw errors_kw timeout_kw retries_kw backoff_kw cooldown_kw registry_kw deleted_kw
       labels_kw annotations_kw when_kw f s =
     (let s0 = warn_deprecated_filters labels_kw annotations_kw s;
          (real_registry, s1) = (case registry_kw of Some r \<Rightarrow> (RegistryAt r, s0)
                                  | None \<Rightarrow> get_default_registry s0);
          real_resource = Resource group_kw version_kw plural_kw;
          real_id = generate_id canon f id_kw None None;
          (handler, s2) = ResourceChangingHandler f real_id None
             errors_kw timeout_kw retries_kw backoff_kw cooldown_kw
             labels_kw annotations_kw when_kw
             (Some True) deleted_kw None
             None s1
      in (f, resource_changing_handlers_append real_registry real_resource handler s2))"

definition on_create ::
  "(string \<Rightarrow> string) \<Rightarrow> string \<Rightarrow> string \<Rightarrow> string
   \<Rightarrow> string option \<Rightarrow> errors_mode option \<Rightarrow> real option \<Rightarrow> int option
   \<Rightarrow> real option \<Rightarrow> real option \<Rightarrow> nat option
   \<Rightarrow> meta_filter option \<Rightarrow> meta_filter option \<Rightarrow> callback option
   \<Rightarrow> callback \<Rightarrow> state \<Rightarrow> callback \<times> state" where
  "on_create canon group_kw version_kw plural_kw
       id_kw errors_kw timeout_kw retries_kw backoff_kw cooldown_kw registry_kw
       labels_kw annotations_kw when_kw f s =
     (let s0 = warn_deprecated_filters labels_kw annotations_kw s;
          (real_registry, s1) = (case registry_kw of Some r \<Rightarrow> (RegistryAt r, s0)
                                  | None \<Rightarrow> get_default_registry s0);
          real_resource = Resource group_kw version_kw plural_kw;
          real_id = generate_id canon f id_kw None None;
          (handler, s2) = ResourceChangingHandler f real_id None
             errors_kw timeout_kw retries_kw backoff_kw cooldown_kw
             labels_kw annotations_kw when_kw
             None None None
             (Some CREATE) s1
      in (f, resource_changing_handlers_append real_registry real_resource handler s2))"

definition on_update ::
  "(string \<Rightarrow> string) \<Rightarrow> string \<Rightarrow> string \<Rightarrow> string
   \<Rightarrow> string option \<Rightarrow> errors_mode option \<Rightarrow> real option \<Rightarrow> int option
   \<Rightarrow> real option \<Rightarrow> real option \<Rightarrow> nat option
   \<Rightarrow> meta_filter option \<Rightarrow> meta_filter option \<Rightarrow> callback option
   \<Rightarrow> callback \<Rightarrow> state \<Rightarrow> callback \<times> state" where
  "on_update canon group_kw version_kw plural_kw
       id_kw errors_kw timeout_kw retries_kw backoff_kw cooldown_kw registry_kw
       labels_kw annotations_kw when_kw f s =
     (let s0 = warn_deprecated_filters labels_kw annotations_kw s;
          (real_registry, s1) = (case registry_kw of Some r \<Rightarrow> (RegistryAt r, s0)
                                  | None \<Rightarrow> get_default_registry s0);
          real_resource = Resource group_kw version_kw plural_kw;
          real_id = generate_id canon f id_kw None None;
          (handler, s2) = ResourceChangingHandler f real_id None
             errors_kw timeout_kw retries_kw backoff_kw cooldown_kw
             labels_kw annotations_kw when_kw
             None None None
             (Some UPDATE) s1
      in (f, resource_changing_handlers_append real_registry real_resource handler s2))"

definition on_delete ::
  "(string \<Rightarrow> string) \<Rightarrow> string \<Rightarrow> string \<Rightarrow> string
   \<Rightarrow> string option \<Rightarrow> errors_mode option \<Rightarrow> real option \<Rightarrow> int option
   \<Rightarrow> real option \<Rightarrow> real option \<Rightarrow> nat option \<Rightarrow> bool option
   \<Rightarrow> meta_filter option \<Rightarrow> meta_filter option \<Rightarrow> callback option
   \<Rightarrow> callback \<Rightarrow> state \<Rightarrow> callback \<times> state" where
  "on_delete canon group_kw version_kw plural_kw
       id_kw errors_kw timeout_kw retries_kw backoff_kw cooldown_kw registry_kw optional_kw
       labels_kw annotations_kw when_kw f s =
     (let s0 = warn_deprecated_filters labels_kw annotations_kw s;
          (real_registry, s1) = (case registry_kw of Some r \<Rightarrow> (RegistryAt r, s0)
                                  | None \<Rightarrow> get_default_registry s0);
          real_resource = Resource group_kw version_kw plural_kw;
          real_id = generate_id canon f id_kw None None;
          (handler, s2) = ResourceChangingHandler f real_id None
             errors_kw timeout_kw retries_kw backoff_kw cooldown_kw
             labels_kw annotations_kw when_kw
             None None (Some (bool_not optional_kw))
             (Some DELETE) s1
      in (f, resource_changing_handlers_append real_registry real_resource handler s2))"

text \<open>
  \<open>field\<close>: an empty parsed path is stored as \<open>None\<close> (\<open>parse_field(field) or None\<close>),
  and the suffix of the id is the path joined by dots, of the empty list then.
\<close>

definition on_field ::
  "(string \<Rightarrow> string) \<Rightarrow> string \<Rightarrow> string \<Rightarrow> string \<Rightarrow> field_spec
   \<Rightarrow> string option \<Rightarrow> errors_mode option \<Rightarrow> real option \<Rightarrow> int option
   \<Rightarrow> real option \<Rightarrow> real option \<Rightarrow> nat option
   \<Rightarrow> meta_filter option \<Rightarrow> meta_filter option \<Rightarrow> callback option
   \<Rightarrow> callback \<Rightarrow> state \<Rightarrow> callback \<times> state" where
  "on_field canon group_kw version_kw plural_kw field_kw
       id_kw errors_kw timeout_kw retries_kw backoff_kw cooldown_kw registry_kw
       labels_kw annotations_kw when_kw f s =
     (let s0 = warn_deprecated_filters labels_kw annotations_kw s;
          (real_registry, s1) = (case registry_kw of Some r \<Rightarrow> (RegistryAt r, s0)
                                  | None \<Rightarrow> get_default_registry s0);
          real_resource = Resource group_kw version_kw plural_kw;
          real_field = (let p = parse_field field_kw in if p = [] then None else Some p);
          real_id = generate_id canon f id_kw None
             (Some (join ''.'' (case real_field of Some p \<Rightarrow> p | None \<Rightarrow> [])));
          (handler, s2) = ResourceChangingHandler f real_id real_field
             errors_kw timeout_kw retries_kw backoff_kw cooldown_kw
             labels_kw annotations_kw when_kw
             None None None
             None s1
      in (f, resource_changing_handlers_append real_registry real_resource handler s2))"

definition on_event ::
  "(string \<Rightarrow> string) \<Rightarrow> string \<Rightarrow> string \<Rightarrow> string
   \<Rightarrow> string option \<Rightarrow> nat option
   \<Rightarrow> meta_filter option \<Rightarrow> meta_filter option \<Rightarrow> callback option
   \<Rightarrow> callback \<Rightarrow> state \<Rightarrow> callback \<times> state" where
  "on_event canon group_kw version_kw plural_kw id_kw registry_kw
       labels_kw annotations_kw when_kw f s =
     (let s0 = warn_deprecated_filters labels_kw annotations_kw s;
          (real_registry, s1) = (case registry_kw of Some r \<Rightarrow> (RegistryAt r, s0)
                                  | None \<Rightarrow> get_default_registry s0);
          real_resource = Resource group_kw version_kw plural_kw;
          real_id = generate_id canon f id_kw None None;
          (handler, s2) = ResourceWatchingHandler f real_id
             None None None None None
             labels_kw annotations_kw when_kw s1
      in (f, resource_watching_handlers_append real_registry real_resource handler s2))"

subsection \<open>Dynamic registration of sub-handlers\<close>

text \<open>
  \<open>this\<close> reads the two context variables, the second one only when no registry
  is given. A raise leaves the state as it is at that point: the warnings of
  the filters are emitted before anything is read. Appending to a registry
  that is \<open>None\<close> raises \<open>AttributeError\<close>.
\<close>

definition on_this ::
  "(string \<Rightarrow> string) \<Rightarrow> string option \<Rightarrow> errors_mode option \<Rightarrow> real option \<Rightarrow> int option
   \<Rightarrow> real option \<Rightarrow> real option \<Rightarrow> nat option
   \<Rightarrow> meta_filter option \<Rightarrow> meta_filter option \<Rightarrow> callback option
   \<Rightarrow> callback \<Rightarrow> state \<Rightarrow> (error \<times> state) + (callback \<times> state)" where
  "on_this canon id_kw errors_kw timeout_kw retries_kw backoff_kw cooldown_kw registry_kw
       labels_kw annotations_kw when_kw f s =
     (let s0 = warn_deprecated_filters labels_kw annotations_kw s
      in (case get (handler_var s0) of
            Inl e \<Rightarrow> Inl (e, s0)
          | Inr parent_handler \<Rightarrow>
             (case (case registry_kw of Some r \<Rightarrow> Inr (Some r)
                    | None \<Rightarrow> get (subregistry_var s0)) of
                Inl e \<Rightarrow> Inl (e, s0)
              | Inr real_registry \<Rightarrow>
                 (let real_id = generate_id canon f id_kw
                        (case parent_handler of Some p \<Rightarrow> Some (id' p) | None \<Rightarrow> None) None;
                      (handler, s1) = ResourceChangingHandler f real_id None
                         errors_kw timeout_kw retries_kw backoff_kw cooldown_kw
                         labels_kw annotations_kw when_kw
                         None None None
                         None s0
                  in (case real_registry of
                        None \<Rightarrow> Inl (AttributeError, s1)
                      | Some r \<Rightarrow> Inr (f, s1\<lparr>changing_registries :=
                          (changing_registries s1)(r := changing_registries s1 r @ [handler])\<rparr>))))))"

definition on_register ::
  "(string \<Rightarrow> string) \<Rightarrow> callback \<Rightarrow> string option \<Rightarrow> errors_mode option \<Rightarrow> real option
   \<Rightarrow> int option \<Rightarrow> real option \<Rightarrow> real option \<Rightarrow> nat option
   \<Rightarrow> meta_filter option \<Rightarrow> meta_filter option \<Rightarrow> callback option
   \<Rightarrow> state \<Rightarrow> (error \<times> state) + (callback \<times> state)" where
  "on_register canon f id_kw errors_kw timeout_kw retries_kw backoff_kw cooldown_kw registry_kw
       labels_kw annotations_kw when_kw s =
     (let decorator = on_this canon id_kw errors_kw timeout_kw retries_kw backoff_kw cooldown_kw
            registry_kw labels_kw annotations_kw when_kw
      in decorator f s)"


section \<open>Verification\<close>

subsection \<open>Notions used in the statements\<close>

text \<open>The registry a call is aimed at, and its resolution as the entry points write it.\<close>

definition target :: "nat option \<Rightarrow> registry_ref" where
  "target registry_kw =
     (case registry_kw of Some r \<Rightarrow> RegistryAt r | None \<Rightarrow> DefaultRegistry)"

definition resolve :: "nat option \<Rightarrow> state \<Rightarrow> registry_ref \<times> state" where
  "resolve registry_kw s =
     (case registry_kw of Some r \<Rightarrow> (RegistryAt r, s) | None \<Rightarrow> get_default_registry s)"

text \<open>
  The registry \<open>this\<close> appends to: the one given, else the one the context holds.
  \<open>None\<close> when there is none.
\<close>

definition sub_target :: "nat option \<Rightarrow> state \<Rightarrow> nat option" where
  "sub_target registry_kw s = (case registry_kw of
      Some r \<Rightarrow> Some r
    | None \<Rightarrow> (case subregistry_var s of Value (Some a) \<Rightarrow> Some a | _ \<Rightarrow> None))"

definition state_after :: "(error \<times> state) + (callback \<times> state) \<Rightarrow> state" where
  "state_after res = (case res of Inl (e, s) \<Rightarrow> s | Inr (f, s) \<Rightarrow> s)"

text \<open>
  Every list a registration can append to is a slot: the activity list of a
  registry, the list of a key in one of its two indices, or a sub-registry.
\<close>

datatype descriptor =
    ActivityD activity_handler
  | WatchingD resource_watching_handler
  | ChangingD resource_changing_handler

datatype slot =
    ActivitySlot registry_ref
  | WatchingSlot registry_ref resource
  | ChangingSlot registry_ref resource
  | SubSlot nat

fun slot_list :: "slot \<Rightarrow> state \<Rightarrow> descriptor list" where
  "slot_list (ActivitySlot r) s = map ActivityD (activity_list r s)"
| "slot_list (WatchingSlot r k) s = map WatchingD (watching_list r k s)"
| "slot_list (ChangingSlot r k) s = map ChangingD (changing_list r k s)"
| "slot_list (SubSlot a) s = map ChangingD (changing_registries s a)"

text \<open>The warnings of the filters and of the cooldown argument, as lists.\<close>

definition filter_warnings :: "meta_filter option \<Rightarrow> meta_filter option \<Rightarrow> warning list" where
  "filter_warnings labels_kw annotations_kw =
     (case labels_kw of None \<Rightarrow> [] | Some l \<Rightarrow> warn_items LabelNoneDeprecated l) @
     (case annotations_kw of None \<Rightarrow> [] | Some a \<Rightarrow> warn_items AnnotationNoneDeprecated a)"

definition cooldown_warnings :: "real option \<Rightarrow> warning list" where
  "cooldown_warnings cooldown_kw = (if cooldown_kw \<noteq> None then [CooldownDeprecated] else [])"

text \<open>The number of entries of a filter that follow the old convention.\<close>

definition deprecated_entries :: "meta_filter option \<Rightarrow> nat" where
  "deprecated_entries m =
     (case m of None \<Rightarrow> 0 | Some xs \<Rightarrow> length (filter (\<lambda>kv. snd kv = None) xs))"

definition is_filter_warning :: "warning \<Rightarrow> bool" where
  "is_filter_warning w = (w = LabelNoneDeprecated \<or> w = AnnotationNoneDeprecated)"

text \<open>The warnings of the filters when each entry of the old convention gives one.\<close>
definition one_per_entry :: "meta_filter option \<Rightarrow> meta_filter option \<Rightarrow> warning list" where
  "one_per_entry labels_kw annotations_kw =
     replicate (deprecated_entries labels_kw) LabelNoneDeprecated @
     replicate (deprecated_entries annotations_kw) AnnotationNoneDeprecated"


text \<open>
  A registration call: the entry point with its arguments, in the order of the
  Python signature, the decorated callback last (first for \<open>register\<close>).
\<close>

datatype call =
    Startup "string option" "errors_mode option" "real option" "int option"
      "real option" "real option" "nat option" callback
  | Cleanup "string option" "errors_mode option" "real option" "int option"
      "real option" "real option" "nat option" callback
  | Login "string option" "errors_mode option" "real option" "int option"
      "real option" "real option" "nat option" callback
  | Probe "string option" "errors_mode option" "real option" "int option"
      "real option" "real option" "nat option" callback
  | Resume string string string "string option" "errors_mode option" "real option"
      "int option" "real option" "real option" "nat option" "bool option"
      "meta_filter option" "meta_filter option" "callback option" callback
  | Create string string string "string option" "errors_mode option" "real option"
      "int option" "real option" "real option" "nat option"
      "meta_filter option" "meta_filter option" "callback option" callback
  | Update string string string "string option" "errors_mode option" "real option"
      "int option" "real option" "real option" "nat option"
      "meta_filter option" "meta_filter option" "callback option" callback
  | Delete string string string "string option" "errors_mode option" "real option"
      "int option" "real option" "real option" "nat option" "bool option"
      "meta_filter option" "meta_filter option" "callback option" callback
  | Field string string string field_spec "string option" "errors_mode option" "real option"
      "int option" "real option" "real option" "nat option"
      "meta_filter option" "meta_filter option" "callback option" callback
  | Event string string string "string option" "nat option"
      "meta_filter option" "meta_filter option" "callback option" callback
  | This "string option" "errors_mode option" "real option" "int option"
      "real option" "real option" "nat option"
      "meta_filter option" "meta_filter option" "callback option" callback
  | Register callback "string option" "errors_mode option" "real option" "int option"
      "real option" "real option" "nat option"
      "meta_filter option" "meta_filter option" "callback option"

text \<open>Making one call, and a sequence of calls one after the other.\<close>

fun exec :: "(string \<Rightarrow> string) \<Rightarrow> call \<Rightarrow> state \<Rightarrow> state" where
  "exec canon (Startup i e t r b c reg f) s = snd (on_startup canon i e t r b c reg f s)"
| "exec canon (Cleanup i e t r b c reg f) s = snd (on_cleanup canon i e t r b c reg f s)"
| "exec canon (Login i e t r b c reg f) s = snd (on_login canon i e t r b c reg f s)"
| "exec canon (Probe i e t r b c reg f) s = snd (on_probe canon i e t r b c reg f s)"
| "exec canon (Resume g v p i e t r b c reg d l a w f) s =
     snd (on_resume canon g v p i e t r b c reg d l a w f s)"
| "exec canon (Create g v p i e t r b c reg l a w f) s =
     snd (on_create canon g v p i e t r b c reg l a w f s)"
| "exec canon (Update g v p i e t r b c reg l a w f) s =
     snd (on_update canon g v p i e t r b c reg l a w f s)"
| "exec canon (Delete g v p i e t r b c reg opt l a w f) s =
     snd (on_delete canon g v p i e t r b c reg opt l a w f s)"
| "exec canon (Field g v p fld i e t r b c reg l a w f) s =
     snd (on_field canon g v p fld i e t r b c reg l a w f s)"
| "exec canon (Event g v p i reg l a w f) s = snd (on_event canon g v p i reg l a w f s)"
| "exec canon (This i e t r b c sub l a w f) s =
     state_after (on_this canon i e t r b c sub l a w f s)"
| "exec canon (Register f i e t r b c sub l a w) s =
     state_after (on_register canon f i e t r b c sub l a w s)"

fun run :: "(string \<Rightarrow> string) \<Rightarrow> call list \<Rightarrow> state \<Rightarrow> state" where
  "run canon [] s = s"
| "run canon (c # cs) s = run canon cs (exec canon c s)"

text \<open>
  What the specification says a call registers, written from its words and not
  from the entry points: the delay is \<open>backoff\<close>, or \<open>cooldown\<close> when \<open>backoff\<close> is
  not given; the id is the canonical explicit id or the name of the callback,
  with the joined field path after a slash for \<open>field\<close> and the id of the parent
  and a slash in front for a sub-handler; each category sets the fields of
  its row in the table of the categories.
\<close>

definition the_delay :: "real option \<Rightarrow> real option \<Rightarrow> real option" where
  "the_delay b c = (if b = None then c else b)"

definition activity_descriptor ::
  "callback \<Rightarrow> string \<Rightarrow> errors_mode option \<Rightarrow> real option \<Rightarrow> int option
   \<Rightarrow> real option \<Rightarrow> real option \<Rightarrow> activity_kind \<Rightarrow> descriptor" where
  "activity_descriptor f i e t r b c k =
     ActivityD \<lparr>fn = f, id' = i, errors = e, timeout = t, retries = r,
       backoff = the_delay b c, activity = k\<rparr>"

definition watching_descriptor ::
  "callback \<Rightarrow> string \<Rightarrow> meta_filter option \<Rightarrow> meta_filter option \<Rightarrow> callback option
   \<Rightarrow> descriptor" where
  "watching_descriptor f i l a w =
     WatchingD \<lparr>fn = f, id' = i, errors = None, timeout = None, retries = None,
       backoff = None, labels = l, annotations = a, when' = w\<rparr>"

definition changing_descriptor ::
  "callback \<Rightarrow> string \<Rightarrow> errors_mode option \<Rightarrow> real option \<Rightarrow> int option
   \<Rightarrow> real option \<Rightarrow> real option
   \<Rightarrow> meta_filter option \<Rightarrow> meta_filter option \<Rightarrow> callback option
   \<Rightarrow> reason_kind option \<Rightarrow> string list option \<Rightarrow> bool option \<Rightarrow> bool option \<Rightarrow> bool option
   \<Rightarrow> descriptor" where
  "changing_descriptor f i e t r b c l a w rsn fld ini del fin =
     ChangingD \<lparr>fn = f, id' = i, errors = e, timeout = t, retries = r,
       backoff = the_delay b c, labels = l, annotations = a, when' = w,
       reason = rsn, field = fld, initial = ini, deleted = del, requires_finalizer = fin\<rparr>"

definition plain_id :: "(string \<Rightarrow> string) \<Rightarrow> callback \<Rightarrow> string option \<Rightarrow> string" where
  "plain_id canon f i = (case i of Some x \<Rightarrow> canon x | None \<Rightarrow> fn_name f)"

text \<open>
  The list a call registers into and the descriptor it puts there, from the
  arguments of the call alone: the list of the call's key in the registry the
  call names. A dynamic registration outside an execution context registers
  nothing.
\<close>

definition sub_registered ::
  "(string \<Rightarrow> string) \<Rightarrow> state \<Rightarrow> string option \<Rightarrow> errors_mode option \<Rightarrow> real option
   \<Rightarrow> int option \<Rightarrow> real option \<Rightarrow> real option \<Rightarrow> nat option
   \<Rightarrow> meta_filter option \<Rightarrow> meta_filter option \<Rightarrow> callback option \<Rightarrow> callback
   \<Rightarrow> (slot \<times> descriptor) option" where
  "sub_registered canon s i e t r b c sub l a w f =
     (case handler_var s of
        Unset \<Rightarrow> None
      | Value parent \<Rightarrow>
         (case sub_target sub s of
            None \<Rightarrow> None
          | Some x \<Rightarrow> Some (SubSlot x,
              changing_descriptor f
                (case parent of Some h \<Rightarrow> id' h @ ''/'' @ plain_id canon f i
                 | None \<Rightarrow> plain_id canon f i)
                e t r b c l a w None None None None None)))"

fun registered :: "(string \<Rightarrow> string) \<Rightarrow> state \<Rightarrow> call \<Rightarrow> (slot \<times> descriptor) option" where
  "registered canon s (Startup i e t r b c reg f) =
     Some (ActivitySlot (target reg), activity_descriptor f (plain_id canon f i) e t r b c STARTUP)"
| "registered canon s (Cleanup i e t r b c reg f) =
     Some (ActivitySlot (target reg), activity_descriptor f (plain_id canon f i) e t r b c CLEANUP)"
| "registered canon s (Login i e t r b c reg f) =
     Some (ActivitySlot (target reg),
       activity_descriptor f (plain_id canon f i) e t r b c AUTHENTICATION)"
| "registered canon s (Probe i e t r b c reg f) =
     Some (ActivitySlot (target reg), activity_descriptor f (plain_id canon f i) e t r b c PROBE)"
| "registered canon s (Resume g v p i e t r b c reg d l a w f) =
     Some (ChangingSlot (target reg) (Resource g v p),
       changing_descriptor f (plain_id canon f i) e t r b c l a w None None (Some True) d None)"
| "registered canon s (Create g v p i e t r b c reg l a w f) =
     Some (ChangingSlot (target reg) (Resource g v p),
       changing_descriptor f (plain_id canon f i) e t r b c l a w (Some CREATE) None None None None)"
| "registered canon s (Update g v p i e t r b c reg l a w f) =
     Some (ChangingSlot (target reg) (Resource g v p),
       changing_descriptor f (plain_id canon f i) e t r b c l a w (Some UPDATE) None None None None)"
| "registered canon s (Delete g v p i e t r b c reg opt l a w f) =
     Some (ChangingSlot (target reg) (Resource g v p),
       changing_descriptor f (plain_id canon f i) e t r b c l a w (Some DELETE) None None None
         (Some (opt \<noteq> Some True)))"
| "registered canon s (Field g v p fld i e t r b c reg l a w f) =
     Some (ChangingSlot (target reg) (Resource g v p),
       changing_descriptor f
         (if join ''.'' (parse_field fld) = [] then plain_id canon f i
          else plain_id canon f i @ ''/'' @ join ''.'' (parse_field fld))
         e t r b c l a w None
         (if parse_field fld = [] then None else Some (parse_field fld)) None None None)"
| "registered canon s (Event g v p i reg l a w f) =
     Some (WatchingSlot (target reg) (Resource g v p),
       watching_descriptor f (plain_id canon f i) l a w)"
| "registered canon s (This i e t r b c sub l a w f) =
     sub_registered canon s i e t r b c sub l a w f"
| "registered canon s (Register f i e t r b c sub l a w) =
     sub_registered canon s i e t r b c sub l a w f"

text \<open>
  The descriptors that the calls of a sequence register into one list, in the
  order of the calls.
\<close>

fun appended_to :: "(string \<Rightarrow> string) \<Rightarrow> state \<Rightarrow> slot \<Rightarrow> call list \<Rightarrow> descriptor list" where
  "appended_to canon s sl [] = []"
| "appended_to canon s sl (c # cs) =
     (case registered canon s c of
        Some (sl0, d) \<Rightarrow> (if sl0 = sl then [d] else [])
      | None \<Rightarrow> []) @ appended_to canon s sl cs"

text \<open>
  The objects of the scenarios: a canonicalisation that leaves an id as it is,
  the resource type of the widgets, two callbacks, and the states reached by
  registering \<open>make\<close> with \<open>create\<close> and then \<open>resize\<close> with \<open>field\<close> on the
  path \<open>spec.size\<close>, starting from the initial state.
\<close>

definition verbatim :: "string \<Rightarrow> string" where
  "verbatim i = i"

definition widgets :: resource where
  "widgets = Resource ''acme.io'' ''v1'' ''widgets''"

definition make_fn :: callback where
  "make_fn = Callback ''make'' 0"

definition resize_fn :: callback where
  "resize_fn = Callback ''resize'' 1"

definition make_handler :: resource_changing_handler where
  "make_handler = \<lparr>fn = make_fn, id' = ''make'', errors = None, timeout = None, retries = None,
     backoff = None, labels = None, annotations = None, when' = None,
     reason = Some CREATE, field = None, initial = None, deleted = None,
     requires_finalizer = None\<rparr>"

definition resize_handler :: resource_changing_handler where
  "resize_handler = \<lparr>fn = resize_fn, id' = ''resize/spec.size'', errors = None, timeout = None,
     retries = None, backoff = None, labels = None, annotations = None, when' = None,
     reason = None, field = Some [''spec'', ''size''], initial = None, deleted = None,
     requires_finalizer = None\<rparr>"

definition after_make :: state where
  "after_make = snd (on_create verbatim ''acme.io'' ''v1'' ''widgets''
     None None None None None None None None None None make_fn initial_state)"

definition after_resize :: state where
  "after_resize = snd (on_field verbatim ''acme.io'' ''v1'' ''widgets'' (FieldStr ''spec.size'')
     None None None None None None None None None None resize_fn after_make)"

text \<open>
  A state in which the handler registered for \<open>make\<close> is being executed, with
  the sub-registry at reference 0 installed, and a callback to register there.
\<close>

definition task_fn :: callback where
  "task_fn = Callback ''create_task'' 2"

definition running :: state where
  "running = after_make\<lparr>handler_var := Value (Some make_handler),
     subregistry_var := Value (Some 0)\<rparr>"

subsection \<open>The effect of the registry operations on the slots\<close>

lemma deref_assign: "deref r (assign r' reg s) = (if r = r' then reg else deref r s)"
  by (cases r; cases r') auto

lemma changing_registries_assign: "changing_registries (assign r reg s) = changing_registries s"
  by (cases r) auto

lemma warnings_assign: "warnings (assign r reg s) = warnings s"
  by (cases r) auto

lemma slot_list_cong:
  assumes "\<And>r. deref r s' = deref r s" and "changing_registries s' = changing_registries s"
  shows "slot_list sl s' = slot_list sl s"
  using assms by (cases sl) (simp_all add: activity_list_def watching_list_def changing_list_def)

lemma deref_warnings: "deref r (s\<lparr>warnings := w\<rparr>) = deref r s"
  by (cases r) auto

lemma slot_list_cooldown_signal: "slot_list sl (cooldown_signal c s) = slot_list sl s"
  by (rule slot_list_cong) (simp_all add: cooldown_signal_def deref_warnings)

lemma slot_list_warn_deprecated_filters:
  "slot_list sl (warn_deprecated_filters l a s) = slot_list sl s"
  by (rule slot_list_cong)
     (simp_all add: warn_deprecated_filters_def deref_warnings split: option.splits)

lemma resolve_fst: "fst (resolve registry_kw s) = target registry_kw"
  by (simp add: resolve_def target_def get_default_registry_def split: option.splits)

lemma deref_resolve: "deref r (snd (resolve registry_kw s)) = deref r s"
  by (cases r) (auto simp: resolve_def get_default_registry_def split: option.splits)

lemma slot_list_resolve: "slot_list sl (snd (resolve registry_kw s)) = slot_list sl s"
  by (rule slot_list_cong)
     (simp_all add: deref_resolve, simp add: resolve_def get_default_registry_def split: option.splits)

lemma slot_list_activity_append:
  "slot_list sl (activity_handlers_append r h s) =
     slot_list sl s @ (if sl = ActivitySlot r then [ActivityD h] else [])"
  by (cases sl)
     (auto simp: activity_handlers_append_def Let_def deref_assign changing_registries_assign
        activity_list_def watching_list_def changing_list_def)

lemma slot_list_watching_append:
  "slot_list sl (resource_watching_handlers_append r k h s) =
     slot_list sl s @ (if sl = WatchingSlot r k then [WatchingD h] else [])"
  by (cases sl)
     (auto simp: resource_watching_handlers_append_def Let_def deref_assign
        changing_registries_assign handlers_at_def
        activity_list_def watching_list_def changing_list_def)

lemma slot_list_changing_append:
  "slot_list sl (resource_changing_handlers_append r k h s) =
     slot_list sl s @ (if sl = ChangingSlot r k then [ChangingD h] else [])"
  by (cases sl)
     (auto simp: resource_changing_handlers_append_def Let_def deref_assign
        changing_registries_assign handlers_at_def
        activity_list_def watching_list_def changing_list_def)

lemmas slot_frames = slot_list_cooldown_signal slot_list_warn_deprecated_filters
  slot_list_resolve slot_list_activity_append slot_list_watching_append
  slot_list_changing_append resolve_fst

subsection \<open>The effect of each entry point on the slots\<close>

lemma on_startup_slots:
  "slot_list sl (snd (on_startup canon i e t r b c reg f s)) =
     slot_list sl s @ (if sl = ActivitySlot (target reg)
       then [ActivityD (fst (ActivityHandler f (generate_id canon f i None None)
               e t r b c STARTUP s))] else [])"
  by (simp add: on_startup_def Let_def split_beta resolve_def [symmetric] slot_frames
        ActivityHandler_def)

lemma on_cleanup_slots:
  "slot_list sl (snd (on_cleanup canon i e t r b c reg f s)) =
     slot_list sl s @ (if sl = ActivitySlot (target reg)
       then [ActivityD (fst (ActivityHandler f (generate_id canon f i None None)
               e t r b c CLEANUP s))] else [])"
  by (simp add: on_cleanup_def Let_def split_beta resolve_def [symmetric] slot_frames
        ActivityHandler_def)

lemma on_login_slots:
  "slot_list sl (snd (on_login canon i e t r b c reg f s)) =
     slot_list sl s @ (if sl = ActivitySlot (target reg)
       then [ActivityD (fst (ActivityHandler f (generate_id canon f i None None)
               e t r b c AUTHENTICATION s))] else [])"
  by (simp add: on_login_def Let_def split_beta resolve_def [symmetric] slot_frames
        ActivityHandler_def)

lemma on_probe_slots:
  "slot_list sl (snd (on_probe canon i e t r b c reg f s)) =
     slot_list sl s @ (if sl = ActivitySlot (target reg)
       then [ActivityD (fst (ActivityHandler f (generate_id canon f i None None)
               e t r b c PROBE s))] else [])"
  by (simp add: on_probe_def Let_def split_beta resolve_def [symmetric] slot_frames
        ActivityHandler_def)

lemma on_resume_slots:
  "slot_list sl (snd (on_resume canon g v p i e t r b c reg d l a w f s)) =
     slot_list sl s @ (if sl = ChangingSlot (target reg) (Resource g v p)
       then [ChangingD (fst (ResourceChangingHandler f (generate_id canon f i None None) None
               e t r b c l a w (Some True) d None None s))] else [])"
  by (simp add: on_resume_def Let_def split_beta resolve_def [symmetric] slot_frames
        ResourceChangingHandler_def)

lemma on_create_slots:
  "slot_list sl (snd (on_create canon g v p i e t r b c reg l a w f s)) =
     slot_list sl s @ (if sl = ChangingSlot (target reg) (Resource g v p)
       then [ChangingD (fst (ResourceChangingHandler f (generate_id canon f i None None) None
               e t r b c l a w None None None (Some CREATE) s))] else [])"
  by (simp add: on_create_def Let_def split_beta resolve_def [symmetric] slot_frames
        ResourceChangingHandler_def)

lemma on_update_slots:
  "slot_list sl (snd (on_update canon g v p i e t r b c reg l a w f s)) =
     slot_list sl s @ (if sl = ChangingSlot (target reg) (Resource g v p)
       then [ChangingD (fst (ResourceChangingHandler f (generate_id canon f i None None) None
               e t r b c l a w None None None (Some UPDATE) s))] else [])"
  by (simp add: on_update_def Let_def split_beta resolve_def [symmetric] slot_frames
        ResourceChangingHandler_def)

lemma on_delete_slots:
  "slot_list sl (snd (on_delete canon g v p i e t r b c reg opt l a w f s)) =
     slot_list sl s @ (if sl = ChangingSlot (target reg) (Resource g v p)
       then [ChangingD (fst (ResourceChangingHandler f (generate_id canon f i None None) None
               e t r b c l a w None None (Some (bool_not opt)) (Some DELETE) s))] else [])"
  by (simp add: on_delete_def Let_def split_beta resolve_def [symmetric] slot_frames
        ResourceChangingHandler_def)

lemma on_field_slots:
  "slot_list sl (snd (on_field canon g v p fld i e t r b c reg l a w f s)) =
     slot_list sl s @ (if sl = ChangingSlot (target reg) (Resource g v p)
       then [ChangingD (fst (ResourceChangingHandler f
               (generate_id canon f i None (Some (join ''.'' (parse_field fld))))
               (if parse_field fld = [] then None else Some (parse_field fld))
               e t r b c l a w None None None None s))] else [])"
  by (simp add: on_field_def Let_def split_beta resolve_def [symmetric] slot_frames
        ResourceChangingHandler_def)

lemma on_event_slots:
  "slot_list sl (snd (on_event canon g v p i reg l a w f s)) =
     slot_list sl s @ (if sl = WatchingSlot (target reg) (Resource g v p)
       then [WatchingD (fst (ResourceWatchingHandler f (generate_id canon f i None None)
               None None None None None l a w s))] else [])"
  by (simp add: on_event_def Let_def split_beta resolve_def [symmetric] slot_frames
        ResourceWatchingHandler_def)

lemma handler_var_warn: "handler_var (warn_deprecated_filters l a s) = handler_var s"
  by (simp add: warn_deprecated_filters_def split: option.splits)

lemma subregistry_var_warn: "subregistry_var (warn_deprecated_filters l a s) = subregistry_var s"
  by (simp add: warn_deprecated_filters_def split: option.splits)

lemma warnings_warn:
  "warnings (warn_deprecated_filters l a s) = warnings s @ filter_warnings l a"
  by (simp add: warn_deprecated_filters_def filter_warnings_def split: option.splits)

lemma warnings_cooldown_signal:
  "warnings (cooldown_signal c s) = warnings s @ cooldown_warnings c"
  by (simp add: cooldown_signal_def cooldown_warnings_def)

lemma changing_registries_prep:
  "changing_registries (cooldown_signal c (warn_deprecated_filters l a s)) = changing_registries s"
  by (simp add: cooldown_signal_def warn_deprecated_filters_def split: option.splits)

lemma slot_list_sub_append:
  "slot_list sl (s\<lparr>changing_registries := (changing_registries s)(a := changing_registries s a @ [h])\<rparr>) =
     slot_list sl s @ (if sl = SubSlot a then [ChangingD h] else [])"
proof (cases sl)
  case (ActivitySlot r)
  then show ?thesis by (cases r) (simp_all add: activity_list_def)
next
  case (WatchingSlot r k)
  then show ?thesis by (cases r) (simp_all add: watching_list_def)
next
  case (ChangingSlot r k)
  then show ?thesis by (cases r) (simp_all add: changing_list_def)
next
  case (SubSlot b)
  then show ?thesis by simp
qed

subsection \<open>Dynamic registration\<close>

lemma on_this_returns:
  assumes "handler_var s = Value ph" and "sub_target reg s = Some x"
  shows "\<exists>s'. on_this canon i e t r b c reg l a w f s = Inr (f, s')
     \<and> (\<forall>sl. slot_list sl s' = slot_list sl s @ (if sl = SubSlot x
          then [ChangingD (fst (ResourceChangingHandler f
                  (generate_id canon f i (case ph of Some p \<Rightarrow> Some (id' p) | None \<Rightarrow> None) None)
                  None e t r b c l a w None None None None s))] else []))
     \<and> warnings s' = warnings s @ filter_warnings l a @ cooldown_warnings c"
proof -
  let ?s1 = "cooldown_signal c (warn_deprecated_filters l a s)"
  let ?h = "fst (ResourceChangingHandler f
      (generate_id canon f i (case ph of Some p \<Rightarrow> Some (id' p) | None \<Rightarrow> None) None)
      None e t r b c l a w None None None None s)"
  let ?s' = "?s1\<lparr>changing_registries :=
      (changing_registries ?s1)(x := changing_registries ?s1 x @ [?h])\<rparr>"
  have ret: "on_this canon i e t r b c reg l a w f s = Inr (f, ?s')"
    using assms
    by (auto simp: on_this_def Let_def sub_target_def handler_var_warn subregistry_var_warn
          ResourceChangingHandler_def
        split: option.splits contextvar.splits)
  have slots: "slot_list sl ?s' = slot_list sl s @ (if sl = SubSlot x then [ChangingD ?h] else [])"
    for sl
    by (simp only: slot_list_sub_append slot_list_cooldown_signal
          slot_list_warn_deprecated_filters)
  have warn: "warnings ?s' = warnings s @ filter_warnings l a @ cooldown_warnings c"
    by (simp add: warnings_cooldown_signal warnings_warn)
  from ret slots warn show ?thesis by blast
qed

lemma on_this_raises:
  assumes "handler_var s = Unset \<or> sub_target reg s = None"
  shows "\<exists>err s'. on_this canon i e t r b c reg l a w f s = Inl (err, s')
           \<and> (\<forall>sl. slot_list sl s' = slot_list sl s)"
  using assms
  by (auto simp: on_this_def Let_def sub_target_def handler_var_warn subregistry_var_warn
        ResourceChangingHandler_def slot_list_warn_deprecated_filters slot_list_cooldown_signal
      split: option.splits contextvar.splits sum.splits)

subsection \<open>The scenario states\<close>

lemma map_ChangingD_eq:
  assumes "map ChangingD xs' = map ChangingD xs @ [ChangingD h]"
  shows "xs' = xs @ [h]"
proof -
  from assms have "map ChangingD xs' = map ChangingD (xs @ [h])" by simp
  then show ?thesis by (rule map_injective) (simp add: inj_def)
qed

lemma deref_initial: "deref r initial_state = empty_registry"
  by (cases r) (simp_all add: initial_state_def)

lemma slot_list_initial: "slot_list sl initial_state = []"
  by (cases sl)
     (simp_all add: activity_list_def watching_list_def changing_list_def deref_initial
        handlers_at_def empty_registry_def, simp add: initial_state_def)

lemma after_make_slots:
  "slot_list sl after_make = (if sl = ChangingSlot DefaultRegistry widgets then [ChangingD make_handler] else [])"
  by (simp add: after_make_def on_create_slots slot_list_initial target_def widgets_def
        ResourceChangingHandler_def make_handler_def generate_id_def make_fn_def
        effective_backoff_def)

lemma after_resize_slots:
  "slot_list sl after_resize = (if sl = ChangingSlot DefaultRegistry widgets
     then [ChangingD make_handler, ChangingD resize_handler] else [])"
  by (simp add: after_resize_def on_field_slots after_make_slots target_def widgets_def
        ResourceChangingHandler_def resize_handler_def generate_id_def resize_fn_def
        effective_backoff_def)

subsection \<open>Sequences of registration calls\<close>

lemma generate_id_plain: "generate_id canon f i None None = plain_id canon f i"
  by (simp add: generate_id_def plain_id_def)

lemma generate_id_suffixed:
  "generate_id canon f i None (Some sfx) =
     (if sfx = [] then plain_id canon f i else plain_id canon f i @ ''/'' @ sfx)"
  by (simp add: generate_id_def plain_id_def)

lemma generate_id_prefixed:
  "generate_id canon f i (Some pfx) None = pfx @ ''/'' @ plain_id canon f i"
  by (simp add: generate_id_def plain_id_def)

lemma effective_backoff_the_delay: "effective_backoff b c = the_delay b c"
  by (cases b) (simp_all add: effective_backoff_def the_delay_def)

lemma bool_not_spec: "bool_not opt = (opt \<noteq> Some True)"
  by (cases opt) auto

lemmas descriptor_simps = activity_descriptor_def watching_descriptor_def
  changing_descriptor_def ActivityHandler_def ResourceWatchingHandler_def
  ResourceChangingHandler_def generate_id_plain generate_id_suffixed generate_id_prefixed
  effective_backoff_the_delay bool_not_spec

lemma sub_exec_slots:
  "slot_list sl (state_after (on_this canon i e t r b c sub l a w f s)) =
     slot_list sl s @
       (case sub_registered canon s i e t r b c sub l a w f of
          Some (sl0, d) \<Rightarrow> (if sl0 = sl then [d] else [])
        | None \<Rightarrow> [])"
proof (cases "handler_var s = Unset \<or> sub_target sub s = None")
  case True
  from on_this_raises [OF this, of canon i e t r b c l a w f] obtain err s' where
    "on_this canon i e t r b c sub l a w f s = Inl (err, s')"
    "\<forall>sl. slot_list sl s' = slot_list sl s" by blast
  moreover from True have "sub_registered canon s i e t r b c sub l a w f = None"
    by (auto simp: sub_registered_def split: contextvar.splits)
  ultimately show ?thesis by (simp add: state_after_def)
next
  case False
  then obtain ph x where h: "handler_var s = Value ph" "sub_target sub s = Some x"
    by (cases "handler_var s") auto
  from on_this_returns [OF h, of canon i e t r b c l a w f] obtain s' where
    "on_this canon i e t r b c sub l a w f s = Inr (f, s')"
    "\<forall>sl. slot_list sl s' = slot_list sl s @ (if sl = SubSlot x
          then [ChangingD (fst (ResourceChangingHandler f
                  (generate_id canon f i (case ph of Some p \<Rightarrow> Some (id' p) | None \<Rightarrow> None) None)
                  None e t r b c l a w None None None None s))] else [])"
    by blast
  moreover have "sub_registered canon s i e t r b c sub l a w f =
      Some (SubSlot x, ChangingD (fst (ResourceChangingHandler f
                  (generate_id canon f i (case ph of Some p \<Rightarrow> Some (id' p) | None \<Rightarrow> None) None)
                  None e t r b c l a w None None None None s)))"
    using h by (cases ph) (simp_all add: sub_registered_def descriptor_simps)
  ultimately show ?thesis by (auto simp: state_after_def)
qed

lemma exec_slots:
  "slot_list sl (exec canon c s) =
     slot_list sl s @
       (case registered canon s c of
          Some (sl0, d) \<Rightarrow> (if sl0 = sl then [d] else [])
        | None \<Rightarrow> [])"
proof (cases c)
  case Startup
  then show ?thesis by (auto simp: on_startup_slots descriptor_simps)
next
  case Cleanup
  then show ?thesis by (auto simp: on_cleanup_slots descriptor_simps)
next
  case Login
  then show ?thesis by (auto simp: on_login_slots descriptor_simps)
next
  case Probe
  then show ?thesis by (auto simp: on_probe_slots descriptor_simps)
next
  case Resume
  then show ?thesis by (auto simp: on_resume_slots descriptor_simps)
next
  case Create
  then show ?thesis by (auto simp: on_create_slots descriptor_simps)
next
  case Update
  then show ?thesis by (auto simp: on_update_slots descriptor_simps)
next
  case Delete
  then show ?thesis by (auto simp: on_delete_slots descriptor_simps)
next
  case Field
  then show ?thesis by (auto simp: on_field_slots descriptor_simps)
next
  case Event
  then show ?thesis by (auto simp: on_event_slots descriptor_simps the_delay_def)
next
  case This
  then show ?thesis by (simp add: sub_exec_slots)
next
  case Register
  then show ?thesis by (simp add: sub_exec_slots on_register_def)
qed


lemma context_assign:
  "handler_var (assign r reg s) = handler_var s"
  "subregistry_var (assign r reg s) = subregistry_var s"
  by (cases r; simp)+

lemma context_resolve:
  "handler_var (snd (resolve reg s)) = handler_var s"
  "subregistry_var (snd (resolve reg s)) = subregistry_var s"
  by (simp_all add: resolve_def get_default_registry_def split: option.splits)

lemma context_cooldown_signal:
  "handler_var (cooldown_signal c s) = handler_var s"
  "subregistry_var (cooldown_signal c s) = subregistry_var s"
  by (simp_all add: cooldown_signal_def)

lemma context_appends:
  "handler_var (activity_handlers_append r h s) = handler_var s"
  "subregistry_var (activity_handlers_append r h s) = subregistry_var s"
  "handler_var (resource_watching_handlers_append r k hw s) = handler_var s"
  "subregistry_var (resource_watching_handlers_append r k hw s) = subregistry_var s"
  "handler_var (resource_changing_handlers_append r k hc s) = handler_var s"
  "subregistry_var (resource_changing_handlers_append r k hc s) = subregistry_var s"
  by (simp_all add: activity_handlers_append_def resource_watching_handlers_append_def
        resource_changing_handlers_append_def Let_def context_assign)

lemmas context_frames = context_assign context_resolve context_cooldown_signal context_appends
  handler_var_warn subregistry_var_warn

lemma context_on_this:
  "handler_var (state_after (on_this canon i e t r b c sub l a w f s)) = handler_var s
   \<and> subregistry_var (state_after (on_this canon i e t r b c sub l a w f s)) = subregistry_var s"
  by (simp add: on_this_def Let_def state_after_def ResourceChangingHandler_def context_frames
      split: sum.splits option.splits)

lemma context_exec:
  "handler_var (exec canon c s) = handler_var s
   \<and> subregistry_var (exec canon c s) = subregistry_var s"
proof (cases c)
  case Startup
  then show ?thesis
    by (simp add: on_startup_def Let_def split_beta resolve_def [symmetric] ActivityHandler_def
          context_frames)
next
  case Cleanup
  then show ?thesis
    by (simp add: on_cleanup_def Let_def split_beta resolve_def [symmetric] ActivityHandler_def
          context_frames)
next
  case Login
  then show ?thesis
    by (simp add: on_login_def Let_def split_beta resolve_def [symmetric] ActivityHandler_def
          context_frames)
next
  case Probe
  then show ?thesis
    by (simp add: on_probe_def Let_def split_beta resolve_def [symmetric] ActivityHandler_def
          context_frames)
next
  case Resume
  then show ?thesis
    by (simp add: on_resume_def Let_def split_beta resolve_def [symmetric]
          ResourceChangingHandler_def context_frames)
next
  case Create
  then show ?thesis
    by (simp add: on_create_def Let_def split_beta resolve_def [symmetric]
          ResourceChangingHandler_def context_frames)
next
  case Update
  then show ?thesis
    by (simp add: on_update_def Let_def split_beta resolve_def [symmetric]
          ResourceChangingHandler_def context_frames)
next
  case Delete
  then show ?thesis
    by (simp add: on_delete_def Let_def split_beta resolve_def [symmetric]
          ResourceChangingHandler_def context_frames)
next
  case Field
  then show ?thesis
    by (simp add: on_field_def Let_def split_beta resolve_def [symmetric]
          ResourceChangingHandler_def context_frames)
next
  case Event
  then show ?thesis
    by (simp add: on_event_def Let_def split_beta resolve_def [symmetric]
          ResourceWatchingHandler_def context_frames)
next
  case This
  then show ?thesis by (simp add: context_on_this)
next
  case Register
  then show ?thesis by (simp add: context_on_this on_register_def)
qed

lemma sub_target_context:
  assumes "subregistry_var s' = subregistry_var s"
  shows "sub_target sub s' = sub_target sub s"
  unfolding sub_target_def assms by (rule refl)

lemma sub_registered_context:
  assumes "handler_var s' = handler_var s" and "subregistry_var s' = subregistry_var s"
  shows "sub_registered canon s' i e t r b c sub l a w f =
    sub_registered canon s i e t r b c sub l a w f"
  unfolding sub_registered_def assms(1) sub_target_context [OF assms(2)] by (rule refl)

lemma registered_context:
  assumes "handler_var s' = handler_var s" and "subregistry_var s' = subregistry_var s"
  shows "registered canon s' c = registered canon s c"
  by (cases c) (simp_all add: sub_registered_context [OF assms])

lemma appended_to_context:
  assumes "handler_var s' = handler_var s" and "subregistry_var s' = subregistry_var s"
  shows "appended_to canon s' sl cs = appended_to canon s sl cs"
  by (induction cs) (simp_all add: registered_context [OF assms])

lemma run_slots:
  "slot_list sl (run canon calls s) = slot_list sl s @ appended_to canon s sl calls"
proof (induction calls arbitrary: s)
  case Nil
  show ?case by simp
next
  case (Cons c cs)
  have "slot_list sl (run canon (c # cs) s) =
      slot_list sl (exec canon c s) @ appended_to canon (exec canon c s) sl cs"
    by (simp add: Cons.IH)
  also have "appended_to canon (exec canon c s) sl cs = appended_to canon s sl cs"
    using context_exec [of canon c s] by (intro appended_to_context) simp_all
  finally show ?case by (simp add: exec_slots)
qed

subsection \<open>What each entry point appends\<close>

lemma map_ActivityD_eq:
  assumes "map ActivityD xs' = map ActivityD xs @ [ActivityD h]"
  shows "xs' = xs @ [h]"
proof -
  from assms have "map ActivityD xs' = map ActivityD (xs @ [h])" by simp
  then show ?thesis by (rule map_injective) (simp add: inj_def)
qed

lemma map_WatchingD_eq:
  assumes "map WatchingD xs' = map WatchingD xs @ [WatchingD h]"
  shows "xs' = xs @ [h]"
proof -
  from assms have "map WatchingD xs' = map WatchingD (xs @ [h])" by simp
  then show ?thesis by (rule map_injective) (simp add: inj_def)
qed

lemma activity_appended:
  assumes "\<And>sl. slot_list sl s' = slot_list sl s @ (if sl = ActivitySlot r then [ActivityD h] else [])"
  shows "activity_list r s' = activity_list r s @ [h]"
  using assms [of "ActivitySlot r"] by (simp add: map_ActivityD_eq)

lemma watching_appended:
  assumes "\<And>sl. slot_list sl s' = slot_list sl s @ (if sl = WatchingSlot r k then [WatchingD h] else [])"
  shows "watching_list r k s' = watching_list r k s @ [h]"
  using assms [of "WatchingSlot r k"] by (simp add: map_WatchingD_eq)

lemma changing_appended:
  assumes "\<And>sl. slot_list sl s' = slot_list sl s @ (if sl = ChangingSlot r k then [ChangingD h] else [])"
  shows "changing_list r k s' = changing_list r k s @ [h]"
  using assms [of "ChangingSlot r k"] by (simp add: map_ChangingD_eq)

lemma sub_appended:
  assumes "\<And>sl. slot_list sl s' = slot_list sl s @ (if sl = SubSlot x then [ChangingD h] else [])"
  shows "changing_registries s' x = changing_registries s x @ [h]"
  using assms [of "SubSlot x"] by (simp add: map_ChangingD_eq)

lemma changing_untouched:
  assumes "\<And>sl. slot_list sl s' = slot_list sl s @ (if sl = WatchingSlot r k then ds else [])"
  shows "changing_list r' k' s' = changing_list r' k' s"
proof -
  from assms [of "ChangingSlot r' k'"]
  have "map ChangingD (changing_list r' k' s') = map ChangingD (changing_list r' k' s)" by simp
  then show ?thesis by (rule map_injective) (simp add: inj_def)
qed

lemma fst_on_activity:
  "fst (on_startup canon i e t r b c reg f s) = f"
  "fst (on_cleanup canon i e t r b c reg f s) = f"
  "fst (on_login canon i e t r b c reg f s) = f"
  "fst (on_probe canon i e t r b c reg f s) = f"
  by (simp_all add: on_startup_def on_cleanup_def on_login_def on_probe_def Let_def split_beta)

lemma fst_on_resource:
  "fst (on_resume canon g v p i e t r b c reg d l a w f s) = f"
  "fst (on_create canon g v p i e t r b c reg l a w f s) = f"
  "fst (on_update canon g v p i e t r b c reg l a w f s) = f"
  "fst (on_delete canon g v p i e t r b c reg opt l a w f s) = f"
  "fst (on_field canon g v p fld i e t r b c reg l a w f s) = f"
  "fst (on_event canon g v p i reg l a w f s) = f"
  by (simp_all add: on_resume_def on_create_def on_update_def on_delete_def on_field_def
        on_event_def Let_def split_beta)

lemma on_this_Inr_callback:
  assumes "on_this canon i e t r b c reg l a w f s = Inr (f', s')"
  shows "f' = f"
proof (cases "handler_var s = Unset \<or> sub_target reg s = None")
  case True
  from on_this_raises [OF this, of canon i e t r b c l a w f] assms show ?thesis by auto
next
  case False
  then obtain ph x where "handler_var s = Value ph" "sub_target reg s = Some x"
    by (cases "handler_var s") auto
  from on_this_returns [OF this, of canon i e t r b c l a w f] assms show ?thesis by auto
qed

lemma on_startup_appends:
  "activity_list (target reg) (snd (on_startup canon i e t r b c reg f s)) =
     activity_list (target reg) s @
       [fst (ActivityHandler f (generate_id canon f i None None) e t r b c STARTUP s)]"
  by (rule activity_appended) (rule on_startup_slots)

lemma on_cleanup_appends:
  "activity_list (target reg) (snd (on_cleanup canon i e t r b c reg f s)) =
     activity_list (target reg) s @
       [fst (ActivityHandler f (generate_id canon f i None None) e t r b c CLEANUP s)]"
  by (rule activity_appended) (rule on_cleanup_slots)

lemma on_login_appends:
  "activity_list (target reg) (snd (on_login canon i e t r b c reg f s)) =
     activity_list (target reg) s @
       [fst (ActivityHandler f (generate_id canon f i None None) e t r b c AUTHENTICATION s)]"
  by (rule activity_appended) (rule on_login_slots)

lemma on_probe_appends:
  "activity_list (target reg) (snd (on_probe canon i e t r b c reg f s)) =
     activity_list (target reg) s @
       [fst (ActivityHandler f (generate_id canon f i None None) e t r b c PROBE s)]"
  by (rule activity_appended) (rule on_probe_slots)

lemma on_resume_appends:
  "changing_list (target reg) (Resource g v p)
       (snd (on_resume canon g v p i e t r b c reg d l a w f s)) =
     changing_list (target reg) (Resource g v p) s @
       [fst (ResourceChangingHandler f (generate_id canon f i None None) None
               e t r b c l a w (Some True) d None None s)]"
  by (rule changing_appended) (rule on_resume_slots)

lemma on_create_appends:
  "changing_list (target reg) (Resource g v p)
       (snd (on_create canon g v p i e t r b c reg l a w f s)) =
     changing_list (target reg) (Resource g v p) s @
       [fst (ResourceChangingHandler f (generate_id canon f i None None) None
               e t r b c l a w None None None (Some CREATE) s)]"
  by (rule changing_appended) (rule on_create_slots)

lemma on_update_appends:
  "changing_list (target reg) (Resource g v p)
       (snd (on_update canon g v p i e t r b c reg l a w f s)) =
     changing_list (target reg) (Resource g v p) s @
       [fst (ResourceChangingHandler f (generate_id canon f i None None) None
               e t r b c l a w None None None (Some UPDATE) s)]"
  by (rule changing_appended) (rule on_update_slots)

lemma on_delete_appends:
  "changing_list (target reg) (Resource g v p)
       (snd (on_delete canon g v p i e t r b c reg opt l a w f s)) =
     changing_list (target reg) (Resource g v p) s @
       [fst (ResourceChangingHandler f (generate_id canon f i None None) None
               e t r b c l a w None None (Some (bool_not opt)) (Some DELETE) s)]"
  by (rule changing_appended) (rule on_delete_slots)

lemma on_field_appends:
  "changing_list (target reg) (Resource g v p)
       (snd (on_field canon g v p fld i e t r b c reg l a w f s)) =
     changing_list (target reg) (Resource g v p) s @
       [fst (ResourceChangingHandler f
               (generate_id canon f i None (Some (join ''.'' (parse_field fld))))
               (if parse_field fld = [] then None else Some (parse_field fld))
               e t r b c l a w None None None None s)]"
  by (rule changing_appended) (rule on_field_slots)

lemma on_event_appends:
  "watching_list (target reg) (Resource g v p) (snd (on_event canon g v p i reg l a w f s)) =
     watching_list (target reg) (Resource g v p) s @
       [fst (ResourceWatchingHandler f (generate_id canon f i None None)
               None None None None None l a w s)]"
  by (rule watching_appended) (rule on_event_slots)

lemma on_this_appends:
  assumes "handler_var s = Value ph" and "sub_target reg s = Some x"
  shows "\<exists>s'. on_this canon i e t r b c reg l a w f s = Inr (f, s')
     \<and> changing_registries s' x = changing_registries s x @
          [fst (ResourceChangingHandler f
                  (generate_id canon f i (case ph of Some p \<Rightarrow> Some (id' p) | None \<Rightarrow> None) None)
                  None e t r b c l a w None None None None s)]
     \<and> warnings s' = warnings s @ filter_warnings l a @ cooldown_warnings c"
proof -
  from on_this_returns [OF assms, of canon i e t r b c l a w f] obtain s' where
    ret: "on_this canon i e t r b c reg l a w f s = Inr (f, s')" and
    slots: "\<And>sl. slot_list sl s' = slot_list sl s @ (if sl = SubSlot x
          then [ChangingD (fst (ResourceChangingHandler f
                  (generate_id canon f i (case ph of Some p \<Rightarrow> Some (id' p) | None \<Rightarrow> None) None)
                  None e t r b c l a w None None None None s))] else [])" and
    warn: "warnings s' = warnings s @ filter_warnings l a @ cooldown_warnings c"
    by blast
  from sub_appended [OF slots] ret warn show ?thesis by blast
qed

lemma backoff_ActivityHandler:
  "backoff (fst (ActivityHandler f i e t r (Some b) c k s)) = Some b"
  by (simp add: ActivityHandler_def effective_backoff_def)

lemma backoff_ResourceChangingHandler:
  "backoff (fst (ResourceChangingHandler f i fld e t r (Some b) c l a w ini del fin rsn s)) = Some b"
  by (simp add: ResourceChangingHandler_def effective_backoff_def)

subsection \<open>Scenarios and identifiers\<close>

lemma running_context:
  "handler_var running = Value (Some make_handler)" "sub_target None running = Some 0"
  by (simp_all add: running_def sub_target_def)

lemma initial_lists:
  "activity_list r initial_state = []"
  "watching_list r k initial_state = []"
  "changing_list r k initial_state = []"
  "changing_registries initial_state x = []"
  by (simp_all add: activity_list_def watching_list_def changing_list_def deref_initial
        empty_registry_def handlers_at_def, simp add: initial_state_def)

lemma generate_id_prefix:
  "generate_id canon f i (Some pfx) None = pfx @ ''/'' @ generate_id canon f i None None"
  by (simp add: generate_id_def)

lemma id_ResourceChangingHandler:
  "id' (fst (ResourceChangingHandler f i fld e t r b c l a w ini del fin rsn s)) = i"
  by (simp add: ResourceChangingHandler_def)

lemma generate_id_same_name:
  assumes "i = None \<longrightarrow> fn_name f1 = fn_name f2"
  shows "generate_id canon f1 i pfx sfx = generate_id canon f2 i pfx sfx"
  using assms by (cases i) (simp_all add: generate_id_def)

lemma on_this_child:
  assumes "handler_var s = Value (Some parent)" and "sub_target sub s = Some x"
  shows "\<exists>h s'. on_this canon i e t r b c sub l a w f s = Inr (f, s')
     \<and> changing_registries s' x = changing_registries s x @ [h]
     \<and> id' h = id' parent @ ''/'' @ generate_id canon f i None None"
proof -
  from on_this_appends [OF assms, of canon i e t r b c l a w f] obtain s' where
    "on_this canon i e t r b c sub l a w f s = Inr (f, s')"
    "changing_registries s' x = changing_registries s x @
          [fst (ResourceChangingHandler f (generate_id canon f i (Some (id' parent)) None)
                  None e t r b c l a w None None None None s)]"
    by auto
  moreover have "id' (fst (ResourceChangingHandler f
      (generate_id canon f i (Some (id' parent)) None)
      None e t r b c l a w None None None None s)) =
    id' parent @ ''/'' @ generate_id canon f i None None"
    by (simp only: id_ResourceChangingHandler generate_id_prefix)
  ultimately show ?thesis by blast
qed

subsection \<open>Caller errors and deprecated filters\<close>

lemma generate_id_empty_suffix:
  "generate_id canon f i pfx (Some []) = generate_id canon f i pfx None"
  by (simp add: generate_id_def)

lemma on_field_empty_path:
  assumes "parse_field fld = []"
  shows "\<exists>h. changing_list (target reg) (Resource g v p)
            (snd (on_field canon g v p fld i e t r b c reg l a w f s)) =
          changing_list (target reg) (Resource g v p) s @ [h]
        \<and> field h = None \<and> id' h = generate_id canon f i None None"
proof -
  let ?h = "fst (ResourceChangingHandler f
               (generate_id canon f i None (Some (join ''.'' (parse_field fld))))
               (if parse_field fld = [] then None else Some (parse_field fld))
               e t r b c l a w None None None None s)"
  have "field ?h = None \<and> id' ?h = generate_id canon f i None None"
    using assms by (simp add: ResourceChangingHandler_def generate_id_empty_suffix)
  with on_field_appends [of reg g v p canon fld i e t r b c l a w f s]
  show ?thesis by blast
qed

lemma warnings_resolve: "warnings (snd (resolve registry_kw s)) = warnings s"
  by (simp add: resolve_def get_default_registry_def split: option.splits)

lemma warnings_watching_append:
  "warnings (resource_watching_handlers_append r k h s) = warnings s"
  by (simp add: resource_watching_handlers_append_def Let_def warnings_assign)

lemma warnings_changing_append:
  "warnings (resource_changing_handlers_append r k h s) = warnings s"
  by (simp add: resource_changing_handlers_append_def Let_def warnings_assign)

lemmas warnings_frames = warnings_resolve warnings_watching_append warnings_changing_append
  warnings_cooldown_signal warnings_warn

lemma on_resume_warnings:
  "warnings (snd (on_resume canon g v p i e t r b c reg d l a w f s)) =
     warnings s @ filter_warnings l a @ cooldown_warnings c"
  by (simp add: on_resume_def Let_def split_beta resolve_def [symmetric] warnings_frames
        ResourceChangingHandler_def)

lemma on_create_warnings:
  "warnings (snd (on_create canon g v p i e t r b c reg l a w f s)) =
     warnings s @ filter_warnings l a @ cooldown_warnings c"
  by (simp add: on_create_def Let_def split_beta resolve_def [symmetric] warnings_frames
        ResourceChangingHandler_def)

lemma on_update_warnings:
  "warnings (snd (on_update canon g v p i e t r b c reg l a w f s)) =
     warnings s @ filter_warnings l a @ cooldown_warnings c"
  by (simp add: on_update_def Let_def split_beta resolve_def [symmetric] warnings_frames
        ResourceChangingHandler_def)

lemma on_delete_warnings:
  "warnings (snd (on_delete canon g v p i e t r b c reg opt l a w f s)) =
     warnings s @ filter_warnings l a @ cooldown_warnings c"
  by (simp add: on_delete_def Let_def split_beta resolve_def [symmetric] warnings_frames
        ResourceChangingHandler_def)

lemma on_field_warnings:
  "warnings (snd (on_field canon g v p fld i e t r b c reg l a w f s)) =
     warnings s @ filter_warnings l a @ cooldown_warnings c"
  by (simp add: on_field_def Let_def split_beta resolve_def [symmetric] warnings_frames
        ResourceChangingHandler_def)

lemma on_event_warnings:
  "warnings (snd (on_event canon g v p i reg l a w f s)) =
     warnings s @ filter_warnings l a @ cooldown_warnings None"
  by (simp add: on_event_def Let_def split_beta resolve_def [symmetric] warnings_frames
        ResourceWatchingHandler_def)

lemma warn_items_replicate:
  "warn_items w xs = replicate (length (filter (\<lambda>kv. snd kv = None) xs)) w"
  by (induction xs) auto

lemma filter_warnings_replicate:
  "filter_warnings l a =
     replicate (deprecated_entries l) LabelNoneDeprecated @
     replicate (deprecated_entries a) AnnotationNoneDeprecated"
  by (simp add: filter_warnings_def deprecated_entries_def warn_items_replicate
      split: option.splits)

lemma filter_emitted:
  "filter is_filter_warning (ws @ filter_warnings l a @ cooldown_warnings c) =
     filter is_filter_warning ws @
     replicate (deprecated_entries l) LabelNoneDeprecated @
     replicate (deprecated_entries a) AnnotationNoneDeprecated"
  by (simp add: filter_warnings_replicate cooldown_warnings_def is_filter_warning_def)

lemma filter_emitted_no_cooldown:
  "filter is_filter_warning (ws @ filter_warnings l a) =
     filter is_filter_warning ws @
     replicate (deprecated_entries l) LabelNoneDeprecated @
     replicate (deprecated_entries a) AnnotationNoneDeprecated"
  using filter_emitted [of ws l a None] by (simp add: cooldown_warnings_def)

lemma on_this_filter_warnings:
  "filter is_filter_warning (warnings (state_after (on_this canon i e t r b c sub l a w f s))) =
     filter is_filter_warning (warnings s) @
     replicate (deprecated_entries l) LabelNoneDeprecated @
     replicate (deprecated_entries a) AnnotationNoneDeprecated"
proof -
  have "warnings (state_after (on_this canon i e t r b c sub l a w f s)) =
          warnings s @ filter_warnings l a
      \<or> warnings (state_after (on_this canon i e t r b c sub l a w f s)) =
          warnings s @ filter_warnings l a @ cooldown_warnings c"
    by (simp add: on_this_def Let_def state_after_def ResourceChangingHandler_def
          warnings_cooldown_signal warnings_warn
        split: sum.splits option.splits)
  then show ?thesis
    by (auto simp only: filter_emitted filter_emitted_no_cooldown)
qed

lemma on_resume_advisory:
  "filter is_filter_warning
        (warnings (snd (on_resume canon g v p i e t r b c reg d l a w f s))) =
      filter is_filter_warning (warnings s) @ one_per_entry l a
    \<and> (\<exists>h. changing_list (target reg) (Resource g v p)
            (snd (on_resume canon g v p i e t r b c reg d l a w f s)) =
          changing_list (target reg) (Resource g v p) s @ [h])"
  by (intro conjI exI, simp only: on_resume_warnings filter_emitted one_per_entry_def,
      rule on_resume_appends)

lemma on_create_advisory:
  "filter is_filter_warning
        (warnings (snd (on_create canon g v p i e t r b c reg l a w f s))) =
      filter is_filter_warning (warnings s) @ one_per_entry l a
    \<and> (\<exists>h. changing_list (target reg) (Resource g v p)
            (snd (on_create canon g v p i e t r b c reg l a w f s)) =
          changing_list (target reg) (Resource g v p) s @ [h])"
  by (intro conjI exI, simp only: on_create_warnings filter_emitted one_per_entry_def,
      rule on_create_appends)

lemma on_update_advisory:
  "filter is_filter_warning
        (warnings (snd (on_update canon g v p i e t r b c reg l a w f s))) =
      filter is_filter_warning (warnings s) @ one_per_entry l a
    \<and> (\<exists>h. changing_list (target reg) (Resource g v p)
            (snd (on_update canon g v p i e t r b c reg l a w f s)) =
          changing_list (target reg) (Resource g v p) s @ [h])"
  by (intro conjI exI, simp only: on_update_warnings filter_emitted one_per_entry_def,
      rule on_update_appends)

lemma on_delete_advisory:
  "filter is_filter_warning
        (warnings (snd (on_delete canon g v p i e t r b c reg opt l a w f s))) =
      filter is_filter_warning (warnings s) @ one_per_entry l a
    \<and> (\<exists>h. changing_list (target reg) (Resource g v p)
            (snd (on_delete canon g v p i e t r b c reg opt l a w f s)) =
          changing_list (target reg) (Resource g v p) s @ [h])"
  by (intro conjI exI, simp only: on_delete_warnings filter_emitted one_per_entry_def,
      rule on_delete_appends)

lemma on_field_advisory:
  "filter is_filter_warning
        (warnings (snd (on_field canon g v p fld i e t r b c reg l a w f s))) =
      filter is_filter_warning (warnings s) @ one_per_entry l a
    \<and> (\<exists>h. changing_list (target reg) (Resource g v p)
            (snd (on_field canon g v p fld i e t r b c reg l a w f s)) =
          changing_list (target reg) (Resource g v p) s @ [h])"
  by (intro conjI exI, simp only: on_field_warnings filter_emitted one_per_entry_def,
      rule on_field_appends)

lemma on_event_advisory:
  "filter is_filter_warning
        (warnings (snd (on_event canon g v p i reg l a w f s))) =
      filter is_filter_warning (warnings s) @ one_per_entry l a
    \<and> (\<exists>h. watching_list (target reg) (Resource g v p)
            (snd (on_event canon g v p i reg l a w f s)) =
          watching_list (target reg) (Resource g v p) s @ [h])"
  by (intro conjI exI, simp only: on_event_warnings filter_emitted one_per_entry_def,
      rule on_event_appends)

section \<open>The claims\<close>

text \<open>
  Claim C1, as the code has it. Calling \<open>this\<close> or \<open>register\<close> when the handler
  variable of the context is unset, or when no registry is given and the context
  holds no sub-registry, raises at the call and appends no descriptor to any
  list. Calling \<open>field\<close> with an empty field path does not raise: it returns the
  callback and appends a descriptor whose field is unset and whose id carries
  no suffix.
\<close>

theorem caller_usage_errors:
  "(handler_var s = Unset \<or> sub_target sub s = None \<longrightarrow>
      (\<exists>err s'. on_this canon i e t r b c sub l a w f s = Inl (err, s')
         \<and> (\<forall>sl. slot_list sl s' = slot_list sl s))
      \<and> (\<exists>err s'. on_register canon f i e t r b c sub l a w s = Inl (err, s')
         \<and> (\<forall>sl. slot_list sl s' = slot_list sl s)))
   \<and> (parse_field fld = [] \<longrightarrow>
      fst (on_field canon g v p fld i e t r b c reg l a w f s) = f
      \<and> (\<exists>h. changing_list (target reg) (Resource g v p)
              (snd (on_field canon g v p fld i e t r b c reg l a w f s)) =
            changing_list (target reg) (Resource g v p) s @ [h]
          \<and> field h = None \<and> id' h = generate_id canon f i None None))"
proof (intro conjI impI)
  assume out: "handler_var s = Unset \<or> sub_target sub s = None"
  from on_this_raises [OF out]
  show "\<exists>err s'. on_this canon i e t r b c sub l a w f s = Inl (err, s')
         \<and> (\<forall>sl. slot_list sl s' = slot_list sl s)" .
  then show "\<exists>err s'. on_register canon f i e t r b c sub l a w s = Inl (err, s')
         \<and> (\<forall>sl. slot_list sl s' = slot_list sl s)"
    by (simp add: on_register_def)
next
  assume "parse_field fld = []"
  show "fst (on_field canon g v p fld i e t r b c reg l a w f s) = f"
    by (rule fst_on_resource)
next
  assume "parse_field fld = []"
  then show "\<exists>h. changing_list (target reg) (Resource g v p)
              (snd (on_field canon g v p fld i e t r b c reg l a w f s)) =
            changing_list (target reg) (Resource g v p) s @ [h]
          \<and> field h = None \<and> id' h = generate_id canon f i None None"
    by (rule on_field_empty_path)
qed

theorem caller_usage_errors_witness:
  "(handler_var initial_state = Unset \<or> sub_target None initial_state = None)
   \<and> (\<exists>err s'. on_this verbatim None None None None None None None None None None
          task_fn initial_state = Inl (err, s')
        \<and> (\<forall>sl. slot_list sl s' = slot_list sl initial_state))
   \<and> parse_field (FieldSeq []) = []
   \<and> (\<exists>h. changing_list (target None) (Resource ''acme.io'' ''v1'' ''widgets'')
          (snd (on_field verbatim ''acme.io'' ''v1'' ''widgets'' (FieldSeq [])
                  None None None None None None None None None None resize_fn initial_state)) =
          changing_list (target None) (Resource ''acme.io'' ''v1'' ''widgets'') initial_state @ [h]
        \<and> field h = None \<and> id' h = generate_id verbatim resize_fn None None None)"
proof -
  have out: "handler_var initial_state = Unset \<or> sub_target None initial_state = None"
    by (simp add: initial_state_def)
  have emp: "parse_field (FieldSeq []) = []" by simp
  from caller_usage_errors [where s = initial_state and sub = None and canon = verbatim
      and i = None and e = None and t = None and r = None and b = None and c = None
      and l = None and a = None and w = None and f = task_fn
      and fld = "FieldSeq []"] out
  have one: "\<exists>err s'. on_this verbatim None None None None None None None None None None
          task_fn initial_state = Inl (err, s')
        \<and> (\<forall>sl. slot_list sl s' = slot_list sl initial_state)"
    by blast
  from caller_usage_errors [where s = initial_state and reg = None and canon = verbatim
      and i = None and e = None and t = None and r = None and b = None and c = None
      and l = None and a = None and w = None and f = resize_fn
      and fld = "FieldSeq []" and g = "''acme.io''" and v = "''v1''" and p = "''widgets''"] emp
  have two: "\<exists>h. changing_list (target None) (Resource ''acme.io'' ''v1'' ''widgets'')
          (snd (on_field verbatim ''acme.io'' ''v1'' ''widgets'' (FieldSeq [])
                  None None None None None None None None None None resize_fn initial_state)) =
          changing_list (target None) (Resource ''acme.io'' ''v1'' ''widgets'') initial_state @ [h]
        \<and> field h = None \<and> id' h = generate_id verbatim resize_fn None None None"
    by blast
  from out emp one two show ?thesis by blast
qed

text \<open>
  The claim as stated fails for \<open>field\<close>: with the empty sequence as field path
  the call returns the callback, and the list of the key holds the descriptor,
  with id \<open>resize\<close> and no field.
\<close>

theorem empty_field_path_counterexample:
  "fst (on_field verbatim ''acme.io'' ''v1'' ''widgets'' (FieldSeq [])
          None None None None None None None None None None resize_fn initial_state) = resize_fn
   \<and> map id' (changing_list DefaultRegistry (Resource ''acme.io'' ''v1'' ''widgets'')
        (snd (on_field verbatim ''acme.io'' ''v1'' ''widgets'' (FieldSeq [])
                None None None None None None None None None None resize_fn initial_state))) =
      [''resize'']
   \<and> map field (changing_list DefaultRegistry (Resource ''acme.io'' ''v1'' ''widgets'')
        (snd (on_field verbatim ''acme.io'' ''v1'' ''widgets'' (FieldSeq [])
                None None None None None None None None None None resize_fn initial_state))) =
      [None]"
  using on_field_appends [of None "''acme.io''" "''v1''" "''widgets''" verbatim "FieldSeq []"
      None None None None None None None None None resize_fn initial_state]
  by (simp add: fst_on_resource target_def initial_lists ResourceChangingHandler_def
        generate_id_def resize_fn_def)

text \<open>
  Claim C2. Registering a function named \<open>make\<close> with \<open>create\<close> and then a function
  named \<open>resize\<close> with \<open>field\<close> on the path \<open>spec.size\<close>, both for the widgets of
  \<open>acme.io/v1\<close>, both without an explicit id and into the same registry, whose
  list for that key was empty, leaves exactly two descriptors in that list: the
  first with id \<open>make\<close> and reason \<open>create\<close>, the second with id
  \<open>resize/spec.size\<close> and no reason.
\<close>

theorem create_then_field_scenario:
  assumes "fn_name f_make = ''make''" and "fn_name f_resize = ''resize''"
    and "changing_list (target reg) (Resource ''acme.io'' ''v1'' ''widgets'') s = []"
  shows "\<exists>ha hb.
      changing_list (target reg) (Resource ''acme.io'' ''v1'' ''widgets'')
        (snd (on_field canon ''acme.io'' ''v1'' ''widgets'' (FieldStr ''spec.size'')
                None eb tb rb bb cb reg lb ab wb f_resize
             (snd (on_create canon ''acme.io'' ''v1'' ''widgets''
                None ea ta ra ba ca reg la aa wa f_make s)))) = [ha, hb]
      \<and> id' ha = ''make'' \<and> reason ha = Some CREATE
      \<and> id' hb = ''resize/spec.size'' \<and> reason hb = None"
proof -
  let ?K = "Resource ''acme.io'' ''v1'' ''widgets''"
  let ?sa = "snd (on_create canon ''acme.io'' ''v1'' ''widgets''
                None ea ta ra ba ca reg la aa wa f_make s)"
  let ?sb = "snd (on_field canon ''acme.io'' ''v1'' ''widgets'' (FieldStr ''spec.size'')
                None eb tb rb bb cb reg lb ab wb f_resize ?sa)"
  let ?ha = "fst (ResourceChangingHandler f_make (generate_id canon f_make None None None) None
               ea ta ra ba ca la aa wa None None None (Some CREATE) s)"
  let ?hb = "fst (ResourceChangingHandler f_resize
               (generate_id canon f_resize None None
                  (Some (join ''.'' (parse_field (FieldStr ''spec.size'')))))
               (if parse_field (FieldStr ''spec.size'') = [] then None
                else Some (parse_field (FieldStr ''spec.size'')))
               eb tb rb bb cb lb ab wb None None None None ?sa)"
  have "changing_list (target reg) ?K ?sa = [?ha]"
    using on_create_appends [of reg "''acme.io''" "''v1''" "''widgets''" canon
        None ea ta ra ba ca la aa wa f_make s] assms(3)
    by simp
  then have lists: "changing_list (target reg) ?K ?sb = [?ha, ?hb]"
    using on_field_appends [of reg "''acme.io''" "''v1''" "''widgets''" canon
        "FieldStr ''spec.size''" None eb tb rb bb cb lb ab wb f_resize ?sa]
    by simp
  have one: "id' ?ha = ''make'' \<and> reason ?ha = Some CREATE"
    using assms(1) by (simp add: ResourceChangingHandler_def generate_id_def)
  have two: "id' ?hb = ''resize/spec.size'' \<and> reason ?hb = None"
    using assms(2) by (simp add: ResourceChangingHandler_def generate_id_def)
  from lists one two show ?thesis by blast
qed

theorem create_then_field_scenario_witness:
  "fn_name make_fn = ''make'' \<and> fn_name resize_fn = ''resize''
   \<and> changing_list (target None) (Resource ''acme.io'' ''v1'' ''widgets'') initial_state = []
   \<and> (\<exists>ha hb. changing_list (target None) (Resource ''acme.io'' ''v1'' ''widgets'')
          after_resize = [ha, hb]
        \<and> id' ha = ''make'' \<and> reason ha = Some CREATE
        \<and> id' hb = ''resize/spec.size'' \<and> reason hb = None)"
proof -
  have a: "fn_name make_fn = ''make''" by (simp add: make_fn_def)
  have b: "fn_name resize_fn = ''resize''" by (simp add: resize_fn_def)
  have c: "changing_list (target None) (Resource ''acme.io'' ''v1'' ''widgets'') initial_state = []"
    by (simp add: initial_lists)
  from create_then_field_scenario [OF a b c, where canon = verbatim
      and ea = None and ta = None and ra = None and ba = None and ca = None
      and la = None and aa = None and wa = None
      and eb = None and tb = None and rb = None and bb = None and cb = None
      and lb = None and ab = None and wb = None] a b c
  show ?thesis by (simp add: after_resize_def after_make_def)
qed

text \<open>
  Claim C3. Every call of \<open>delete\<close> appends a descriptor of reason \<open>delete\<close> whose
  requires-finalizer flag is true when \<open>optional\<close> is not given, and false when
  \<open>optional\<close> is true.
\<close>

theorem delete_requires_finalizer:
  "(\<exists>h. changing_list (target reg) (Resource g v p)
          (snd (on_delete canon g v p i e t r b c reg None l a w f s)) =
        changing_list (target reg) (Resource g v p) s @ [h]
      \<and> reason h = Some DELETE \<and> requires_finalizer h = Some True)
   \<and> (\<exists>h. changing_list (target reg) (Resource g v p)
          (snd (on_delete canon g v p i e t r b c reg (Some True) l a w f s)) =
        changing_list (target reg) (Resource g v p) s @ [h]
      \<and> reason h = Some DELETE \<and> requires_finalizer h = Some False)"
proof -
  let ?h = "\<lambda>opt. fst (ResourceChangingHandler f (generate_id canon f i None None) None
      e t r b c l a w None None (Some (bool_not opt)) (Some DELETE) s)"
  have app: "changing_list (target reg) (Resource g v p)
        (snd (on_delete canon g v p i e t r b c reg opt l a w f s)) =
      changing_list (target reg) (Resource g v p) s @ [?h opt]" for opt
    by (rule changing_appended) (rule on_delete_slots)
  have "reason (?h opt) = Some DELETE \<and> requires_finalizer (?h opt) = Some (bool_not opt)"
    for opt
    by (simp add: ResourceChangingHandler_def)
  from this [of None] this [of "Some True"] app [of None] app [of "Some True"]
  show ?thesis by (simp del: fst_conv)
qed

text \<open>
  Claim C4. When \<open>this\<close> or \<open>register\<close> is called while a parent descriptor is being
  executed, the id of the descriptor it appends begins with the id of the parent
  followed by a slash. Two such registrations with the same explicit id (or,
  without one, callbacks of the same name) under parents of the same id append
  descriptors of equal ids, whatever the rest of the two states.
\<close>

theorem sub_handler_id_hierarchy:
  "(handler_var sa = Value (Some pa) \<and> sub_target suba sa = Some xa \<longrightarrow>
      (\<exists>h s'. on_this canon i ea ta ra ba ca suba la aa wa fa sa = Inr (fa, s')
         \<and> changing_registries s' xa = changing_registries sa xa @ [h]
         \<and> prefix (id' pa @ ''/'') (id' h))
      \<and> (\<exists>h s'. on_register canon fa i ea ta ra ba ca suba la aa wa sa = Inr (fa, s')
         \<and> changing_registries s' xa = changing_registries sa xa @ [h]
         \<and> prefix (id' pa @ ''/'') (id' h)))
   \<and> (handler_var sa = Value (Some pa) \<and> sub_target suba sa = Some xa
      \<and> handler_var sb = Value (Some pb) \<and> sub_target subb sb = Some xb
      \<and> id' pa = id' pb \<and> (i = None \<longrightarrow> fn_name fa = fn_name fb) \<longrightarrow>
      (\<exists>ha sa' hb sb'.
           on_this canon i ea ta ra ba ca suba la aa wa fa sa = Inr (fa, sa')
         \<and> changing_registries sa' xa = changing_registries sa xa @ [ha]
         \<and> on_this canon i eb tb rb bb cb subb lb ab wb fb sb = Inr (fb, sb')
         \<and> changing_registries sb' xb = changing_registries sb xb @ [hb]
         \<and> id' ha = id' hb)
      \<and> (\<exists>ha sa' hb sb'.
           on_register canon fa i ea ta ra ba ca suba la aa wa sa = Inr (fa, sa')
         \<and> changing_registries sa' xa = changing_registries sa xa @ [ha]
         \<and> on_register canon fb i eb tb rb bb cb subb lb ab wb sb = Inr (fb, sb')
         \<and> changing_registries sb' xb = changing_registries sb xb @ [hb]
         \<and> id' ha = id' hb))"
proof (intro conjI impI; elim conjE)
  assume ctx: "handler_var sa = Value (Some pa)" "sub_target suba sa = Some xa"
  from on_this_child [OF ctx, of canon i ea ta ra ba ca la aa wa fa]
  show "\<exists>h s'. on_this canon i ea ta ra ba ca suba la aa wa fa sa = Inr (fa, s')
         \<and> changing_registries s' xa = changing_registries sa xa @ [h]
         \<and> prefix (id' pa @ ''/'') (id' h)"
    by (auto simp: prefix_def)
  then show "\<exists>h s'. on_register canon fa i ea ta ra ba ca suba la aa wa sa = Inr (fa, s')
         \<and> changing_registries s' xa = changing_registries sa xa @ [h]
         \<and> prefix (id' pa @ ''/'') (id' h)"
    by (simp add: on_register_def)
next
  assume ctx1: "handler_var sa = Value (Some pa)" "sub_target suba sa = Some xa"
    and ctx2: "handler_var sb = Value (Some pb)" "sub_target subb sb = Some xb"
    and same: "id' pa = id' pb" "i = None \<longrightarrow> fn_name fa = fn_name fb"
  from on_this_child [OF ctx1, of canon i ea ta ra ba ca la aa wa fa] obtain ha sa' where
    one: "on_this canon i ea ta ra ba ca suba la aa wa fa sa = Inr (fa, sa')"
      "changing_registries sa' xa = changing_registries sa xa @ [ha]"
      "id' ha = id' pa @ ''/'' @ generate_id canon fa i None None"
    by blast
  from on_this_child [OF ctx2, of canon i eb tb rb bb cb lb ab wb fb] obtain hb sb' where
    two: "on_this canon i eb tb rb bb cb subb lb ab wb fb sb = Inr (fb, sb')"
      "changing_registries sb' xb = changing_registries sb xb @ [hb]"
      "id' hb = id' pb @ ''/'' @ generate_id canon fb i None None"
    by blast
  from one(3) two(3) same generate_id_same_name [OF same(2), of canon None None]
  have "id' ha = id' hb" by simp
  with one two
  show this_ok: "\<exists>ha sa' hb sb'.
           on_this canon i ea ta ra ba ca suba la aa wa fa sa = Inr (fa, sa')
         \<and> changing_registries sa' xa = changing_registries sa xa @ [ha]
         \<and> on_this canon i eb tb rb bb cb subb lb ab wb fb sb = Inr (fb, sb')
         \<and> changing_registries sb' xb = changing_registries sb xb @ [hb]
         \<and> id' ha = id' hb"
    by blast
  then show "\<exists>ha sa' hb sb'.
           on_register canon fa i ea ta ra ba ca suba la aa wa sa = Inr (fa, sa')
         \<and> changing_registries sa' xa = changing_registries sa xa @ [ha]
         \<and> on_register canon fb i eb tb rb bb cb subb lb ab wb sb = Inr (fb, sb')
         \<and> changing_registries sb' xb = changing_registries sb xb @ [hb]
         \<and> id' ha = id' hb"
    by (simp add: on_register_def)
qed

theorem sub_handler_id_hierarchy_witness:
  "handler_var running = Value (Some make_handler) \<and> sub_target None running = Some 0
   \<and> id' make_handler = id' make_handler
   \<and> (\<exists>h s'. on_this verbatim (Some ''task_abc'') None None None None None None None None None
          task_fn running = Inr (task_fn, s')
        \<and> changing_registries s' 0 = changing_registries running 0 @ [h]
        \<and> prefix (''make'' @ ''/'') (id' h))
   \<and> (\<exists>ha sa' hb sb'.
          on_this verbatim (Some ''task_abc'') None None None None None None None None None
            task_fn running = Inr (task_fn, sa')
        \<and> changing_registries sa' 0 = changing_registries running 0 @ [ha]
        \<and> on_this verbatim (Some ''task_abc'') None None None None None None None None None
            task_fn running = Inr (task_fn, sb')
        \<and> changing_registries sb' 0 = changing_registries running 0 @ [hb]
        \<and> id' ha = id' hb)"
  using sub_handler_id_hierarchy [where canon = verbatim and i = "Some ''task_abc''"
      and sa = running and sb = running and pa = make_handler and pb = make_handler
      and suba = None and subb = None and xa = 0 and xb = 0
      and fa = task_fn and fb = task_fn
      and ea = None and ta = None and ra = None and ba = None and ca = None
      and la = None and aa = None and wa = None
      and eb = None and tb = None and rb = None and bb = None and cb = None
      and lb = None and ab = None and wb = None]
  by (simp add: running_context make_handler_def)

text \<open>
  Claim C5. When a registration call supplies both \<open>backoff\<close> and \<open>cooldown\<close>,
  the descriptor it appends has the value of \<open>backoff\<close> as its delay, for every
  entry point that takes the two arguments (for \<open>this\<close> and \<open>register\<close>: in an
  execution context, where they return).
\<close>

theorem backoff_precedence:
  "(\<exists>h. activity_list (target reg) (snd (on_startup canon i e t r (Some b) (Some c) reg f s)) =
          activity_list (target reg) s @ [h] \<and> backoff h = Some b)
   \<and> (\<exists>h. activity_list (target reg) (snd (on_cleanup canon i e t r (Some b) (Some c) reg f s)) =
          activity_list (target reg) s @ [h] \<and> backoff h = Some b)
   \<and> (\<exists>h. activity_list (target reg) (snd (on_login canon i e t r (Some b) (Some c) reg f s)) =
          activity_list (target reg) s @ [h] \<and> backoff h = Some b)
   \<and> (\<exists>h. activity_list (target reg) (snd (on_probe canon i e t r (Some b) (Some c) reg f s)) =
          activity_list (target reg) s @ [h] \<and> backoff h = Some b)
   \<and> (\<exists>h. changing_list (target reg) (Resource g v p)
            (snd (on_resume canon g v p i e t r (Some b) (Some c) reg d l a w f s)) =
          changing_list (target reg) (Resource g v p) s @ [h] \<and> backoff h = Some b)
   \<and> (\<exists>h. changing_list (target reg) (Resource g v p)
            (snd (on_create canon g v p i e t r (Some b) (Some c) reg l a w f s)) =
          changing_list (target reg) (Resource g v p) s @ [h] \<and> backoff h = Some b)
   \<and> (\<exists>h. changing_list (target reg) (Resource g v p)
            (snd (on_update canon g v p i e t r (Some b) (Some c) reg l a w f s)) =
          changing_list (target reg) (Resource g v p) s @ [h] \<and> backoff h = Some b)
   \<and> (\<exists>h. changing_list (target reg) (Resource g v p)
            (snd (on_delete canon g v p i e t r (Some b) (Some c) reg opt l a w f s)) =
          changing_list (target reg) (Resource g v p) s @ [h] \<and> backoff h = Some b)
   \<and> (\<exists>h. changing_list (target reg) (Resource g v p)
            (snd (on_field canon g v p fld i e t r (Some b) (Some c) reg l a w f s)) =
          changing_list (target reg) (Resource g v p) s @ [h] \<and> backoff h = Some b)
   \<and> (handler_var s = Value ph \<and> sub_target sub s = Some x \<longrightarrow>
        (\<exists>h s'. on_this canon i e t r (Some b) (Some c) sub l a w f s = Inr (f, s')
           \<and> changing_registries s' x = changing_registries s x @ [h] \<and> backoff h = Some b)
        \<and> (\<exists>h s'. on_register canon f i e t r (Some b) (Some c) sub l a w s = Inr (f, s')
           \<and> changing_registries s' x = changing_registries s x @ [h] \<and> backoff h = Some b))"
proof (intro conjI impI; (elim conjE)?)
  show "\<exists>h. activity_list (target reg) (snd (on_startup canon i e t r (Some b) (Some c) reg f s)) =
          activity_list (target reg) s @ [h] \<and> backoff h = Some b"
    by (intro exI conjI, rule on_startup_appends, rule backoff_ActivityHandler)
  show "\<exists>h. activity_list (target reg) (snd (on_cleanup canon i e t r (Some b) (Some c) reg f s)) =
          activity_list (target reg) s @ [h] \<and> backoff h = Some b"
    by (intro exI conjI, rule on_cleanup_appends, rule backoff_ActivityHandler)
  show "\<exists>h. activity_list (target reg) (snd (on_login canon i e t r (Some b) (Some c) reg f s)) =
          activity_list (target reg) s @ [h] \<and> backoff h = Some b"
    by (intro exI conjI, rule on_login_appends, rule backoff_ActivityHandler)
  show "\<exists>h. activity_list (target reg) (snd (on_probe canon i e t r (Some b) (Some c) reg f s)) =
          activity_list (target reg) s @ [h] \<and> backoff h = Some b"
    by (intro exI conjI, rule on_probe_appends, rule backoff_ActivityHandler)
  show "\<exists>h. changing_list (target reg) (Resource g v p)
            (snd (on_resume canon g v p i e t r (Some b) (Some c) reg d l a w f s)) =
          changing_list (target reg) (Resource g v p) s @ [h] \<and> backoff h = Some b"
    by (intro exI conjI, rule on_resume_appends, rule backoff_ResourceChangingHandler)
  show "\<exists>h. changing_list (target reg) (Resource g v p)
            (snd (on_create canon g v p i e t r (Some b) (Some c) reg l a w f s)) =
          changing_list (target reg) (Resource g v p) s @ [h] \<and> backoff h = Some b"
    by (intro exI conjI, rule on_create_appends, rule backoff_ResourceChangingHandler)
  show "\<exists>h. changing_list (target reg) (Resource g v p)
            (snd (on_update canon g v p i e t r (Some b) (Some c) reg l a w f s)) =
          changing_list (target reg) (Resource g v p) s @ [h] \<and> backoff h = Some b"
    by (intro exI conjI, rule on_update_appends, rule backoff_ResourceChangingHandler)
  show "\<exists>h. changing_list (target reg) (Resource g v p)
            (snd (on_delete canon g v p i e t r (Some b) (Some c) reg opt l a w f s)) =
          changing_list (target reg) (Resource g v p) s @ [h] \<and> backoff h = Some b"
    by (intro exI conjI, rule on_delete_appends, rule backoff_ResourceChangingHandler)
  show "\<exists>h. changing_list (target reg) (Resource g v p)
            (snd (on_field canon g v p fld i e t r (Some b) (Some c) reg l a w f s)) =
          changing_list (target reg) (Resource g v p) s @ [h] \<and> backoff h = Some b"
    by (intro exI conjI, rule on_field_appends, rule backoff_ResourceChangingHandler)
next
  assume ctx: "handler_var s = Value ph" "sub_target sub s = Some x"
  from on_this_appends [OF ctx, of canon i e t r "Some b" "Some c" l a w f]
    backoff_ResourceChangingHandler
  show this_ok: "\<exists>h s'. on_this canon i e t r (Some b) (Some c) sub l a w f s = Inr (f, s')
           \<and> changing_registries s' x = changing_registries s x @ [h] \<and> backoff h = Some b"
    by blast
  then show "\<exists>h s'. on_register canon f i e t r (Some b) (Some c) sub l a w s = Inr (f, s')
           \<and> changing_registries s' x = changing_registries s x @ [h] \<and> backoff h = Some b"
    by (simp add: on_register_def)
qed

theorem backoff_precedence_witness:
  "handler_var running = Value (Some make_handler) \<and> sub_target None running = Some 0
   \<and> (\<exists>h s'. on_this verbatim None None None None (Some 5) (Some 3) None None None None
          task_fn running = Inr (task_fn, s')
        \<and> changing_registries s' 0 = changing_registries running 0 @ [h]
        \<and> backoff h = Some 5)
   \<and> (\<exists>h. changing_list DefaultRegistry (Resource ''acme.io'' ''v1'' ''widgets'')
          (snd (on_create verbatim ''acme.io'' ''v1'' ''widgets'' None None None None
                  (Some 5) (Some 3) None None None None make_fn initial_state)) = [h]
        \<and> backoff h = Some 5)"
proof -
  from backoff_precedence [where canon = verbatim and i = None and e = None and t = None
      and r = None and b = 5 and c = 3 and reg = None and l = None and a = None and w = None
      and f = make_fn and s = initial_state
      and g = "''acme.io''" and v = "''v1''" and p = "''widgets''"]
  have "\<exists>h. changing_list DefaultRegistry (Resource ''acme.io'' ''v1'' ''widgets'')
          (snd (on_create verbatim ''acme.io'' ''v1'' ''widgets'' None None None None
                  (Some 5) (Some 3) None None None None make_fn initial_state)) = [h]
        \<and> backoff h = Some 5"
    by (simp add: target_def initial_lists)
  moreover
  from backoff_precedence [where canon = verbatim and i = None and e = None and t = None
      and r = None and b = 5 and c = 3 and sub = None and l = None and a = None and w = None
      and f = task_fn and s = running and ph = "Some make_handler" and x = 0]
  have "\<exists>h s'. on_this verbatim None None None None (Some 5) (Some 3) None None None None
          task_fn running = Inr (task_fn, s')
        \<and> changing_registries s' 0 = changing_registries running 0 @ [h]
        \<and> backoff h = Some 5"
    by (simp add: running_context)
  ultimately show ?thesis by (simp add: running_context)
qed

text \<open>
  Claim C6. For every sequence of registration calls, made by whichever entry
  points, and for every list of every registry (the activity list, the list of
  a key in the resource-watching or in the resource-changing index, a
  sub-registry): the list after the calls is the list before them, unchanged,
  followed by the descriptors of exactly those calls that name this list by
  their registry and key, each with the callback, id and options of its call,
  in the order in which the calls were made.
\<close>

theorem ordering_invariant:
  "slot_list sl (run canon calls s) = slot_list sl s @ appended_to canon s sl calls"
  by (rule run_slots)

theorem ordering_invariant_witness:
  "slot_list (ChangingSlot DefaultRegistry widgets)
     (run verbatim
        [Create ''acme.io'' ''v1'' ''widgets'' None None None None None None None
           None None None make_fn,
         Event ''acme.io'' ''v1'' ''widgets'' None None None None None task_fn,
         Startup None None None None None None None task_fn,
         Field ''acme.io'' ''v1'' ''widgets'' (FieldStr ''spec.size'') None None None None None
           None None None None None resize_fn]
        initial_state) =
   [ChangingD make_handler, ChangingD resize_handler]"
  using ordering_invariant [of "ChangingSlot DefaultRegistry widgets" verbatim
      "[Create ''acme.io'' ''v1'' ''widgets'' None None None None None None None
           None None None make_fn,
         Event ''acme.io'' ''v1'' ''widgets'' None None None None None task_fn,
         Startup None None None None None None None task_fn,
         Field ''acme.io'' ''v1'' ''widgets'' (FieldStr ''spec.size'') None None None None None
           None None None None None resize_fn]" initial_state]
  by (simp add: slot_list_initial target_def widgets_def changing_descriptor_def
        watching_descriptor_def activity_descriptor_def plain_id_def the_delay_def
        make_handler_def resize_handler_def make_fn_def resize_fn_def task_fn_def)

text \<open>
  Claim C7, as the code has it. A registration call emits one deprecation warning
  for each entry of \<open>labels\<close> whose value is \<open>None\<close> and then one for each such
  entry of \<open>annotations\<close>: at least one when there is such an entry, and as many
  as there are. The warnings never abort the registration: \<open>resume\<close>, \<open>create\<close>,
  \<open>update\<close>, \<open>delete\<close>, \<open>field\<close> and \<open>event\<close> append their descriptor whatever the
  filters are, and \<open>this\<close> and \<open>register\<close> append theirs whenever they are called in
  an execution context.
\<close>

theorem deprecated_filters_advisory:
  "(filter is_filter_warning
        (warnings (snd (on_resume canon g v p i e t r b c reg d l a w f s))) =
      filter is_filter_warning (warnings s) @ one_per_entry l a
    \<and> (\<exists>h. changing_list (target reg) (Resource g v p)
            (snd (on_resume canon g v p i e t r b c reg d l a w f s)) =
          changing_list (target reg) (Resource g v p) s @ [h]))
   \<and> (filter is_filter_warning
        (warnings (snd (on_create canon g v p i e t r b c reg l a w f s))) =
      filter is_filter_warning (warnings s) @ one_per_entry l a
    \<and> (\<exists>h. changing_list (target reg) (Resource g v p)
            (snd (on_create canon g v p i e t r b c reg l a w f s)) =
          changing_list (target reg) (Resource g v p) s @ [h]))
   \<and> (filter is_filter_warning
        (warnings (snd (on_update canon g v p i e t r b c reg l a w f s))) =
      filter is_filter_warning (warnings s) @ one_per_entry l a
    \<and> (\<exists>h. changing_list (target reg) (Resource g v p)
            (snd (on_update canon g v p i e t r b c reg l a w f s)) =
          changing_list (target reg) (Resource g v p) s @ [h]))
   \<and> (filter is_filter_warning
        (warnings (snd (on_delete canon g v p i e t r b c reg opt l a w f s))) =
      filter is_filter_warning (warnings s) @ one_per_entry l a
    \<and> (\<exists>h. changing_list (target reg) (Resource g v p)
            (snd (on_delete canon g v p i e t r b c reg opt l a w f s)) =
          changing_list (target reg) (Resource g v p) s @ [h]))
   \<and> (filter is_filter_warning
        (warnings (snd (on_field canon g v p fld i e t r b c reg l a w f s))) =
      filter is_filter_warning (warnings s) @ one_per_entry l a
    \<and> (\<exists>h. changing_list (target reg) (Resource g v p)
            (snd (on_field canon g v p fld i e t r b c reg l a w f s)) =
          changing_list (target reg) (Resource g v p) s @ [h]))
   \<and> (filter is_filter_warning
        (warnings (snd (on_event canon g v p i reg l a w f s))) =
      filter is_filter_warning (warnings s) @ one_per_entry l a
    \<and> (\<exists>h. watching_list (target reg) (Resource g v p)
            (snd (on_event canon g v p i reg l a w f s)) =
          watching_list (target reg) (Resource g v p) s @ [h]))
   \<and> filter is_filter_warning
        (warnings (state_after (on_this canon i e t r b c sub l a w f s))) =
      filter is_filter_warning (warnings s) @ one_per_entry l a
   \<and> filter is_filter_warning
        (warnings (state_after (on_register canon f i e t r b c sub l a w s))) =
      filter is_filter_warning (warnings s) @ one_per_entry l a
   \<and> (handler_var s = Value ph \<and> sub_target sub s = Some x \<longrightarrow>
      (\<exists>h s'. on_this canon i e t r b c sub l a w f s = Inr (f, s')
         \<and> changing_registries s' x = changing_registries s x @ [h])
      \<and> (\<exists>h s'. on_register canon f i e t r b c sub l a w s = Inr (f, s')
         \<and> changing_registries s' x = changing_registries s x @ [h]))"
proof -
  have this_warn: "filter is_filter_warning
        (warnings (state_after (on_this canon i e t r b c sub l a w f s))) =
      filter is_filter_warning (warnings s) @ one_per_entry l a"
    by (simp only: on_this_filter_warnings one_per_entry_def)
  have this_ret: "\<exists>h s'. on_this canon i e t r b c sub l a w f s = Inr (f, s')
         \<and> changing_registries s' x = changing_registries s x @ [h]"
    if "handler_var s = Value ph \<and> sub_target sub s = Some x"
    using on_this_appends [of s ph sub x canon i e t r b c l a w f] that by blast
  have this_ret': "handler_var s = Value ph \<and> sub_target sub s = Some x \<longrightarrow>
      (\<exists>h s'. on_this canon i e t r b c sub l a w f s = Inr (f, s')
         \<and> changing_registries s' x = changing_registries s x @ [h])"
    using this_ret by blast
  show ?thesis
    unfolding on_register_def Let_def
    by (intro conjI; (rule on_resume_advisory [THEN conjunct1]
          on_resume_advisory [THEN conjunct2]
          on_create_advisory [THEN conjunct1] on_create_advisory [THEN conjunct2]
          on_update_advisory [THEN conjunct1] on_update_advisory [THEN conjunct2]
          on_delete_advisory [THEN conjunct1] on_delete_advisory [THEN conjunct2]
          on_field_advisory [THEN conjunct1] on_field_advisory [THEN conjunct2]
          on_event_advisory [THEN conjunct1] on_event_advisory [THEN conjunct2]
          this_warn)?)
       (use this_ret' in blast)
qed

theorem deprecated_filters_advisory_witness:
  "handler_var running = Value (Some make_handler) \<and> sub_target None running = Some 0
   \<and> (\<exists>h s'. on_this verbatim None None None None None None None
          (Some [(''a'', None), (''b'', None)]) (Some [(''c'', None)]) None
          task_fn running = Inr (task_fn, s')
        \<and> changing_registries s' 0 = changing_registries running 0 @ [h])"
  using deprecated_filters_advisory [where canon = verbatim and i = None and e = None
      and t = None and r = None and b = None and c = None and sub = None
      and l = "Some [(''a'', None), (''b'', None)]" and a = "Some [(''c'', None)]" and w = None
      and f = task_fn and s = running and ph = "Some make_handler" and x = 0]
  by (simp add: running_context)

text \<open>
  The claim as stated fails: one call of \<open>create\<close> with one \<open>None\<close> among the
  labels and one among the annotations emits two warnings.
\<close>

theorem one_warning_per_call_counterexample:
  "warnings (snd (on_create verbatim ''acme.io'' ''v1'' ''widgets''
      None None None None None None None
      (Some [(''a'', None)]) (Some [(''b'', None)]) None make_fn initial_state)) =
   [LabelNoneDeprecated, AnnotationNoneDeprecated]"
  by (simp add: on_create_warnings filter_warnings_def cooldown_warnings_def initial_state_def)

text \<open>
  Claim C8. Every entry point returns the callback it was given, whatever the
  options: the ten entry points that aim at an operator registry always, \<open>this\<close>
  and \<open>register\<close> whenever they return; and they do return whenever the handler
  variable of the context is set and a sub-registry is given or in the context.
\<close>

theorem callback_returned_unchanged:
  "fst (on_startup canon i e t r b c reg f s) = f
   \<and> fst (on_cleanup canon i e t r b c reg f s) = f
   \<and> fst (on_login canon i e t r b c reg f s) = f
   \<and> fst (on_probe canon i e t r b c reg f s) = f
   \<and> fst (on_resume canon g v p i e t r b c reg d l a w f s) = f
   \<and> fst (on_create canon g v p i e t r b c reg l a w f s) = f
   \<and> fst (on_update canon g v p i e t r b c reg l a w f s) = f
   \<and> fst (on_delete canon g v p i e t r b c reg opt l a w f s) = f
   \<and> fst (on_field canon g v p fld i e t r b c reg l a w f s) = f
   \<and> fst (on_event canon g v p i reg l a w f s) = f
   \<and> (\<forall>f' s'. on_this canon i e t r b c sub l a w f s = Inr (f', s') \<longrightarrow> f' = f)
   \<and> (\<forall>f' s'. on_register canon f i e t r b c sub l a w s = Inr (f', s') \<longrightarrow> f' = f)
   \<and> (handler_var s \<noteq> Unset \<and> sub_target sub s \<noteq> None \<longrightarrow>
        (\<exists>s'. on_this canon i e t r b c sub l a w f s = Inr (f, s'))
        \<and> (\<exists>s'. on_register canon f i e t r b c sub l a w s = Inr (f, s')))"
proof -
  have ret: "\<exists>s'. on_this canon i e t r b c sub l a w f s = Inr (f, s')"
    if "handler_var s \<noteq> Unset \<and> sub_target sub s \<noteq> None"
  proof -
    from that obtain ph x where "handler_var s = Value ph" "sub_target sub s = Some x"
      by (cases "handler_var s") auto
    from on_this_returns [OF this, of canon i e t r b c l a w f] show ?thesis by blast
  qed
  show ?thesis
    using ret on_this_Inr_callback [of canon i e t r b c sub l a w f s]
    by (simp add: fst_on_activity fst_on_resource on_register_def)
qed

theorem callback_returned_unchanged_witness:
  "handler_var running \<noteq> Unset \<and> sub_target None running \<noteq> None
   \<and> (\<exists>s'. on_this verbatim (Some ''task_abc'') None None None None None None None None None
          task_fn running = Inr (task_fn, s'))
   \<and> (\<exists>s'. on_register verbatim task_fn (Some ''task_abc'') None None None None None None
          None None None running = Inr (task_fn, s'))"
  using callback_returned_unchanged [where canon = verbatim and i = "Some ''task_abc''"
      and e = None and t = None and r = None and b = None and c = None and sub = None
      and l = None and a = None and w = None and f = task_fn and s = running]
  by (simp add: running_context)

text \<open>
  Claim C9. Every call of \<open>event\<close> appends its descriptor to the
  resource-watching index of the target registry, under the key of the call.
  The descriptor carries no error mode, timeout, retries, backoff or cooldown,
  and no list of the resource-changing index of any registry changes.
\<close>

theorem event_descriptor_has_no_policy:
  "\<exists>h. watching_list (target reg) (Resource g v p)
          (snd (on_event canon g v p i reg l a w f s)) =
        watching_list (target reg) (Resource g v p) s @ [h]
      \<and> errors h = None \<and> timeout h = None \<and> retries h = None
      \<and> backoff h = None \<and> cooldown h = None
      \<and> (\<forall>r k. changing_list r k (snd (on_event canon g v p i reg l a w f s)) =
                 changing_list r k s)"
proof -
  let ?s' = "snd (on_event canon g v p i reg l a w f s)"
  let ?h = "fst (ResourceWatchingHandler f (generate_id canon f i None None)
               None None None None None l a w s)"
  have app: "watching_list (target reg) (Resource g v p) ?s' =
      watching_list (target reg) (Resource g v p) s @ [?h]"
    by (rule watching_appended) (rule on_event_slots)
  have pol: "errors ?h = None \<and> timeout ?h = None \<and> retries ?h = None
      \<and> backoff ?h = None \<and> cooldown ?h = None"
    by (simp add: ResourceWatchingHandler_def effective_backoff_def cooldown_def)
  have same: "changing_list r k ?s' = changing_list r k s" for r k
    by (rule changing_untouched) (rule on_event_slots)
  from app pol same show ?thesis by blast
qed

text \<open>
  Claim C10. For every callback, every combination of arguments and every state,
  \<open>register\<close> called on the callback does what the decorator made by \<open>this\<close>
  with the same arguments does when applied to it: the same result, which
  holds the callback returned and the state with the same descriptor appended
  to the same registry, or the same error.
\<close>

theorem register_is_this:
  "on_register canon f i e t r b c reg l a w s = on_this canon i e t r b c reg l a w f s"
  by (simp add: on_register_def)

end
